theory Spec2Isabelle
  imports Main "HOL-Library.AList"
begin

unbundle bit_operations_syntax

section \<open>Library functions used by the server\<close>

text \<open>
  Go strings and byte slices are sequences of bytes; both are modelled as \<open>string\<close>, whose
  characters are 8-bit values. Go's \<open>int64\<close> values are modelled as \<open>int\<close>; the only
  operation that can leave the 64-bit range, parsing, reports a range error instead.
\<close>

subsection \<open>strconv.ParseInt (base 10, 64 bits)\<close>

datatype num_error = ErrSyntax | ErrRange

definition maxUint64 :: nat where
  "maxUint64 = 18446744073709551615"

text \<open>
  The digit loop of \<open>strconv.ParseUint\<close> for base 10: a byte that is not a decimal digit
  is a syntax error; \<open>n >= cutoff\<close> (where \<open>cutoff = maxUint64/10 + 1\<close>) means that
  \<open>n * 10\<close> overflows, and \<open>n1 > maxVal\<close> that adding the digit does.
\<close>

fun ParseUint_loop :: "nat \<Rightarrow> string \<Rightarrow> num_error + nat" where
  "ParseUint_loop n [] = Inr n"
| "ParseUint_loop n (c # cs) =
     (if \<not> (48 \<le> (of_char c :: nat) \<and> (of_char c :: nat) \<le> 57) then Inl ErrSyntax
      else if n \<ge> maxUint64 div 10 + 1 then Inl ErrRange
      else if n * 10 + (of_char c - 48) > maxUint64 then Inl ErrRange
      else ParseUint_loop (n * 10 + (of_char c - 48)) cs)"

definition ParseUint :: "string \<Rightarrow> num_error + nat" where
  "ParseUint s = (if s = [] then Inl ErrSyntax else ParseUint_loop 0 s)"

text \<open>
  \<open>strconv.ParseInt(s, 10, 64)\<close>: the empty string is a syntax error, one leading sign
  is picked off, the rest is converted unsigned, and the result is checked against the
  signed range (\<open>cutoff = 1 << 63\<close>).
\<close>

definition ParseInt :: "string \<Rightarrow> num_error + int" where
  "ParseInt s =
     (if s = [] then Inl ErrSyntax
      else
        let neg = (hd s = CHR ''-'');
            s' = (if hd s = CHR ''+'' \<or> hd s = CHR ''-'' then tl s else s)
        in case ParseUint s' of
             Inl ErrSyntax \<Rightarrow> Inl ErrSyntax
           | Inl ErrRange \<Rightarrow> Inl ErrRange
           | Inr un \<Rightarrow>
               if \<not> neg \<and> un \<ge> 2 ^ 63 then Inl ErrRange
               else if neg \<and> un > 2 ^ 63 then Inl ErrRange
               else Inr (if neg then - int un else int un))"

subsection \<open>fmt.Sprintf with the verb \<open>%d\<close>\<close>

function digits10 :: "nat \<Rightarrow> string" where
  "digits10 n = (if n < 10 then [char_of (48 + n)] else digits10 (n div 10) @ [char_of (48 + n mod 10)])"
  by pat_completeness auto
termination
  by (relation "measure id") auto

declare digits10.simps [simp del]

definition FormatInt :: "int \<Rightarrow> string" where
  "FormatInt i = (if i < 0 then CHR ''-'' # digits10 (nat (- i)) else digits10 (nat i))"

text \<open>\<open>fmt.Sprintf("%s:%s:%d", method, filename, expires)\<close>\<close>

definition Sprintf_s_s_d :: "string \<Rightarrow> string \<Rightarrow> int \<Rightarrow> string" where
  "Sprintf_s_s_d a b d = a @ '':'' @ b @ '':'' @ FormatInt d"

subsection \<open>encoding/hex\<close>

definition hextable :: string where
  "hextable = ''0123456789abcdef''"

fun EncodeToString :: "string \<Rightarrow> string" where
  "EncodeToString [] = []"
| "EncodeToString (c # cs) =
     hextable ! ((of_char c :: nat) div 16) # hextable ! ((of_char c :: nat) mod 16) # EncodeToString cs"

subsection \<open>crypto/sha256\<close>

text \<open>
  SHA-256 (FIPS 180-4). 32-bit words are integers in \<open>[0, 2^32)\<close> with the wrap-around
  of addition written out.
\<close>

definition add32 :: "int \<Rightarrow> int \<Rightarrow> int" where
  "add32 x y = (x + y) mod 4294967296"

definition rotr :: "nat \<Rightarrow> int \<Rightarrow> int" where
  "rotr n x = x div 2 ^ n + (x mod 2 ^ n) * 2 ^ (32 - n)"

definition shr :: "nat \<Rightarrow> int \<Rightarrow> int" where
  "shr n x = x div 2 ^ n"

definition Ch :: "int \<Rightarrow> int \<Rightarrow> int \<Rightarrow> int" where
  "Ch x y z = (x AND y) XOR ((4294967295 - x) AND z)"

definition Maj :: "int \<Rightarrow> int \<Rightarrow> int \<Rightarrow> int" where
  "Maj x y z = (x AND y) XOR (x AND z) XOR (y AND z)"

definition bsig0 :: "int \<Rightarrow> int" where
  "bsig0 x = rotr 2 x XOR rotr 13 x XOR rotr 22 x"

definition bsig1 :: "int \<Rightarrow> int" where
  "bsig1 x = rotr 6 x XOR rotr 11 x XOR rotr 25 x"

definition ssig0 :: "int \<Rightarrow> int" where
  "ssig0 x = rotr 7 x XOR rotr 18 x XOR shr 3 x"

definition ssig1 :: "int \<Rightarrow> int" where
  "ssig1 x = rotr 17 x XOR rotr 19 x XOR shr 10 x"

text \<open>
  The round constants: the first 32 bits of the fractional parts of the cube roots of the
  first 64 primes.
\<close>

definition K256 :: "int list" where
  "K256 =
  [1116352408, 1899447441, 3049323471, 3921009573, 961987163, 1508970993,
   2453635748, 2870763221, 3624381080, 310598401, 607225278, 1426881987,
   1925078388, 2162078206, 2614888103, 3248222580, 3835390401, 4022224774,
   264347078, 604807628, 770255983, 1249150122, 1555081692, 1996064986,
   2554220882, 2821834349, 2952996808, 3210313671, 3336571891, 3584528711,
   113926993, 338241895, 666307205, 773529912, 1294757372, 1396182291,
   1695183700, 1986661051, 2177026350, 2456956037, 2730485921, 2820302411,
   3259730800, 3345764771, 3516065817, 3600352804, 4094571909, 275423344,
   430227734, 506948616, 659060556, 883997877, 958139571, 1322822218,
   1537002063, 1747873779, 1955562222, 2024104815, 2227730452, 2361852424,
   2428436474, 2756734187, 3204031479, 3329325298]"

type_synonym hstate = "int \<times> int \<times> int \<times> int \<times> int \<times> int \<times> int \<times> int"

text \<open>
  The initial hash value: the first 32 bits of the fractional parts of the square roots of
  the first 8 primes.
\<close>

definition init256 :: hstate where
  "init256 = (1779033703, 3144134277, 1013904242, 2773480762,
              1359893119, 2600822924, 528734635, 1541459225)"

text \<open>The sixteen big-endian words of a 64-byte block.\<close>

fun be_words :: "string \<Rightarrow> int list" where
  "be_words (a # b # c # d # rest) =
     (((of_char a * 256 + of_char b) * 256 + of_char c) * 256 + of_char d) # be_words rest"
| "be_words _ = []"

text \<open>
  The message schedule: \<open>ws\<close> holds the last sixteen words, oldest first; each step emits
  the oldest and appends the next one.
\<close>

definition next_w :: "int list \<Rightarrow> int" where
  "next_w ws = add32 (add32 (add32 (ssig1 (ws ! 14)) (ws ! 9)) (ssig0 (ws ! 1))) (ws ! 0)"

fun schedule :: "nat \<Rightarrow> int list \<Rightarrow> int list" where
  "schedule 0 ws = []"
| "schedule (Suc n) ws = hd ws # schedule n (tl ws @ [next_w ws])"

definition T1 :: "int \<Rightarrow> int \<Rightarrow> int \<Rightarrow> int \<Rightarrow> int \<Rightarrow> int \<Rightarrow> int" where
  "T1 e f g h k w = add32 (add32 (add32 (add32 h (bsig1 e)) (Ch e f g)) k) w"

definition T2 :: "int \<Rightarrow> int \<Rightarrow> int \<Rightarrow> int" where
  "T2 a b c = add32 (bsig0 a) (Maj a b c)"

fun rotate_in :: "int \<Rightarrow> int \<Rightarrow> hstate \<Rightarrow> hstate" where
  "rotate_in t1 t2 (a, b, c, d, e, f, g, h) = (add32 t1 t2, a, b, c, add32 d t1, e, f, g)"

fun round256 :: "hstate \<Rightarrow> int \<times> int \<Rightarrow> hstate" where
  "round256 (a, b, c, d, e, f, g, h) (k, w) =
     rotate_in (T1 e f g h k w) (T2 a b c) (a, b, c, d, e, f, g, h)"

fun add_state :: "hstate \<Rightarrow> hstate \<Rightarrow> hstate" where
  "add_state (a, b, c, d, e, f, g, h) (a', b', c', d', e', f', g', h') =
     (add32 a a', add32 b b', add32 c c', add32 d d',
      add32 e e', add32 f f', add32 g g', add32 h h')"

definition compress :: "hstate \<Rightarrow> int list \<Rightarrow> hstate" where
  "compress s ws = add_state s (foldl round256 s (zip K256 (schedule 64 ws)))"

definition block256 :: "hstate \<Rightarrow> string \<Rightarrow> hstate" where
  "block256 s blk = compress s (be_words blk)"

function blocks256 :: "hstate \<Rightarrow> string \<Rightarrow> hstate" where
  "blocks256 s bs =
     (if length bs < 64 then s else blocks256 (block256 s (take 64 bs)) (drop 64 bs))"
  by pat_completeness auto
termination
  by (relation "measure (\<lambda>(s, bs). length bs)") auto

declare blocks256.simps [simp del]

definition be32 :: "int \<Rightarrow> string" where
  "be32 v = [char_of (v div 16777216), char_of (v div 65536), char_of (v div 256), char_of v]"

definition be64 :: "int \<Rightarrow> string" where
  "be64 v = be32 (v div 4294967296) @ be32 v"

text \<open>Padding: a 1 bit, zeros up to 56 modulo 64, and the bit length in 64 bits.\<close>

definition pad256 :: "string \<Rightarrow> string" where
  "pad256 m =
     m @ [char_of (128 :: nat)] @ replicate (nat ((55 - int (length m)) mod 64)) (char_of (0 :: nat))
       @ be64 (8 * int (length m))"

fun digest_bytes :: "hstate \<Rightarrow> string" where
  "digest_bytes (a, b, c, d, e, f, g, h) =
     be32 a @ be32 b @ be32 c @ be32 d @ be32 e @ be32 f @ be32 g @ be32 h"

definition sha256 :: "string \<Rightarrow> string" where
  "sha256 m = digest_bytes (blocks256 init256 (pad256 m))"

subsection \<open>crypto/hmac\<close>

text \<open>
  \<open>hmac.New(sha256.New, key)\<close>, \<open>Write(data)\<close>, \<open>Sum(nil)\<close> (RFC 2104): a key longer than
  the block size is hashed first, then padded with zeros to 64 bytes.
\<close>

definition xor_byte :: "nat \<Rightarrow> char \<Rightarrow> char" where
  "xor_byte p c = char_of ((of_char c :: nat) XOR p)"

definition hmac_sha256 :: "string \<Rightarrow> string \<Rightarrow> string" where
  "hmac_sha256 key msg =
     (let k0 = (if length key > 64 then sha256 key else key);
          k = k0 @ replicate (64 - length k0) (char_of (0 :: nat))
      in sha256 (map (xor_byte 92) k @ sha256 (map (xor_byte 54) k @ msg)))"

text \<open>
  \<open>hmac.Equal\<close> is \<open>subtle.ConstantTimeCompare(mac1, mac2) == 1\<close>: slices of different
  lengths compare unequal at once; otherwise the XOR of every pair of bytes is
  accumulated with OR and the result is 1 when the accumulator is 0.
\<close>

definition ConstantTimeCompare :: "string \<Rightarrow> string \<Rightarrow> int" where
  "ConstantTimeCompare x y =
     (if length x \<noteq> length y then 0
      else if foldl (\<lambda>v (a, b). v OR ((of_char a :: nat) XOR of_char b)) 0 (zip x y) = 0 then 1
      else 0)"

definition hmac_Equal :: "string \<Rightarrow> string \<Rightarrow> bool" where
  "hmac_Equal mac1 mac2 = (ConstantTimeCompare mac1 mac2 = 1)"

subsection \<open>path/filepath\<close>

text \<open>
  Paths are handled by their elements. \<open>filepath.Clean\<close> removes empty and \<open>.\<close>
  elements, cancels an inner \<open>..\<close> against the element before it, drops \<open>..\<close> at the
  start of a rooted path and keeps it at the start of a relative one.
\<close>

fun split_slash :: "string \<Rightarrow> string list" where
  "split_slash [] = [[]]"
| "split_slash (c # cs) =
     (if c = CHR ''/'' then [] # split_slash cs
      else case split_slash cs of [] \<Rightarrow> [[c]] | x # xs \<Rightarrow> (c # x) # xs)"

fun join_slash :: "string list \<Rightarrow> string" where
  "join_slash [] = []"
| "join_slash [x] = x"
| "join_slash (x # y # zs) = x @ CHR ''/'' # join_slash (y # zs)"

definition rooted :: "string \<Rightarrow> bool" where
  "rooted p = (p \<noteq> [] \<and> hd p = CHR ''/'')"

definition clean_step :: "bool \<Rightarrow> string list \<Rightarrow> string \<Rightarrow> string list" where
  "clean_step r out elem =
     (if elem = [] \<or> elem = ''.'' then out
      else if elem = ''..'' then
        (if out \<noteq> [] \<and> last out \<noteq> ''..'' then butlast out
         else if r then out
         else out @ [''..''])
      else out @ [elem])"

definition clean_elems :: "string \<Rightarrow> string list" where
  "clean_elems p = foldl (clean_step (rooted p)) [] (split_slash p)"

definition filepath_Clean :: "string \<Rightarrow> string" where
  "filepath_Clean p =
     (if p = [] then ''.''
      else if rooted p then CHR ''/'' # join_slash (clean_elems p)
      else if clean_elems p = [] then ''.''
      else join_slash (clean_elems p))"

text \<open>
  \<open>filepath.Join(a, b)\<close>: empty elements are ignored, the rest is joined with the
  separator and cleaned; the result is empty when both elements are.
\<close>

definition filepath_Join :: "string \<Rightarrow> string \<Rightarrow> string" where
  "filepath_Join a b =
     (if a \<noteq> [] then filepath_Clean (a @ CHR ''/'' # b)
      else if b \<noteq> [] then filepath_Clean b
      else [])"

text \<open>
  \<open>filepath.Ext\<close> scans from the end of the path: it stops at a separator and returns
  the suffix that begins at the first dot it meets.
\<close>

fun Ext_scan :: "string \<Rightarrow> string \<Rightarrow> string" where
  "Ext_scan [] acc = []"
| "Ext_scan (c # cs) acc =
     (if c = CHR ''/'' then []
      else if c = CHR ''.'' then c # acc
      else Ext_scan cs (c # acc))"

definition filepath_Ext :: "string \<Rightarrow> string" where
  "filepath_Ext path = Ext_scan (rev path) []"

subsection \<open>github.com/google/uuid\<close>

text \<open>
  \<open>uuid.New()\<close> reads 16 random bytes and sets the version (4) and the variant bits;
  \<open>String()\<close> prints them in hex in groups of 4, 2, 2, 2 and 6 bytes. The random
  bytes are an argument.
\<close>

definition uuid_New :: "string \<Rightarrow> string" where
  "uuid_New r =
     r[6 := char_of (((of_char (r ! 6) :: nat) AND 15) OR 64),
       8 := char_of (((of_char (r ! 8) :: nat) AND 63) OR 128)]"

definition uuid_String :: "string \<Rightarrow> string" where
  "uuid_String u =
     EncodeToString (take 4 u) @ CHR ''-'' # EncodeToString (take 2 (drop 4 u)) @
     CHR ''-'' # EncodeToString (take 2 (drop 6 u)) @
     CHR ''-'' # EncodeToString (take 2 (drop 8 u)) @
     CHR ''-'' # EncodeToString (take 6 (drop 10 u))"

section \<open>Configuration\<close>

text \<open>
  The package variables \<open>uploadDirPath\<close> and \<open>secretKey\<close>, set once by \<open>init\<close> from
  the process environment; \<open>init\<close> panics (\<open>None\<close>) when the secret key is empty.
\<close>

record config =
  uploadDirPath :: string
  secretKey :: string

definition os_Getenv :: "(string \<rightharpoonup> string) \<Rightarrow> string \<Rightarrow> string" where
  "os_Getenv environ key = (case environ key of Some v \<Rightarrow> v | None \<Rightarrow> [])"

definition getEnv :: "(string \<rightharpoonup> string) \<Rightarrow> string \<Rightarrow> string \<Rightarrow> string" where
  "getEnv environ key defaultValue =
     (if os_Getenv environ key \<noteq> [] then os_Getenv environ key else defaultValue)"

definition init :: "(string \<rightharpoonup> string) \<Rightarrow> config option" where
  "init environ =
     (let u = getEnv environ ''UPLOAD_DIR_PATH'' ''uploads'';
          k = getEnv environ ''SECRET_KEY'' []
      in if k = [] then None else Some \<lparr>uploadDirPath = u, secretKey = k\<rparr>)"

text \<open>
  What a request takes from outside the program: the clock (\<open>time.Now().Unix()\<close>), the
  random bytes of \<open>uuid.New()\<close>, the platform's table behind
  \<open>mime.TypeByExtension\<close>, and the content sniffing of \<open>http.DetectContentType\<close>,
  whose algorithm is taken as given.
\<close>

record platform =
  unix_now :: int
  random_bytes :: string
  mime_TypeByExtension :: "string \<Rightarrow> string"
  http_DetectContentType :: "string \<Rightarrow> string"

definition getMimeType :: "platform \<Rightarrow> string \<Rightarrow> string" where
  "getMimeType pf filename = mime_TypeByExtension pf (filepath_Ext filename)"

section \<open>The request context\<close>

text \<open>
  What the handlers read from \<open>*gin.Context\<close>: the request method, the path parameters
  bound by the router, the decoded query pairs in URL order, the outcome of parsing
  the multipart body (\<open>None\<close> when the body is not a multipart form), the path of the
  request URL (\<open>c.Request.URL.Path\<close>) and the request headers under their canonical
  names, both of which \<open>c.File\<close> reads.
\<close>

record upload =
  Filename :: string
  content :: string

record gin_Context =
  Method :: string
  Params :: "(string \<times> string) list"
  QueryPairs :: "(string \<times> string) list"
  Multipart :: "(string \<times> upload) list option"
  URLPath :: string
  RequestHeaders :: "(string \<times> string) list"

text \<open>\<open>c.Param(key)\<close>: the first parameter of that name, or the empty string.\<close>

definition Param :: "gin_Context \<Rightarrow> string \<Rightarrow> string" where
  "Param c key = (case map_of (Params c) key of Some v \<Rightarrow> v | None \<Rightarrow> [])"

text \<open>\<open>c.GetQuery(key)\<close>: the first value of that key, when the key is present.\<close>

definition GetQuery :: "gin_Context \<Rightarrow> string \<Rightarrow> string option" where
  "GetQuery c key = map_of (QueryPairs c) key"

text \<open>\<open>c.Query(key)\<close>: the value of \<open>GetQuery\<close>, or the empty string.\<close>

definition Query :: "gin_Context \<Rightarrow> string \<Rightarrow> string" where
  "Query c key = (case GetQuery c key of Some v \<Rightarrow> v | None \<Rightarrow> [])"

section \<open>The token validator\<close>

text \<open>
  \<open>validateUrl\<close> of \<open>main.go\<close>. The configuration and the value of
  \<open>time.Now().Unix()\<close> are arguments.
\<close>

definition validateUrl :: "config \<Rightarrow> int \<Rightarrow> gin_Context \<Rightarrow> bool" where
  "validateUrl cfg now c =
     (let filename = Param c ''filename'';
          expireStr = Query c ''expires'';
          signature = Query c ''signature''
      in if expireStr = [] \<or> signature = [] then False
         else case ParseInt expireStr of
                Inl err \<Rightarrow> False
              | Inr expires \<Rightarrow>
                  if now > expires then False
                  else
                    let method = Method c;
                        data = Sprintf_s_s_d method filename expires;
                        expectedsignature = EncodeToString (hmac_sha256 (secretKey cfg) data)
                    in hmac_Equal signature expectedsignature)"

text \<open>
  The signature that \<open>generateSignedUrl\<close> of \<open>generate-signed-url.js\<close> puts into a URL:
  the hex digest of the HMAC-SHA256 of \<open>METHOD:filename:expires\<close>, where a missing
  filename counts as the empty string.
\<close>

definition generateSignedUrl_signature :: "string \<Rightarrow> string \<Rightarrow> string \<Rightarrow> int \<Rightarrow> string" where
  "generateSignedUrl_signature key method filename expires =
     EncodeToString (hmac_sha256 key (method @ '':'' @ filename @ '':'' @ FormatInt expires))"

section \<open>The file system\<close>

text \<open>
  A location is a path as the operating system resolves it: whether it is rooted, and its
  cleaned elements (there are no symbolic links, so \<open>..\<close> is resolved lexically). The
  world holds the directories and regular files that exist, the calls that the operating
  system refuses for a reason of its own (permissions, a name that is too long or holds a
  NUL byte, a full disk, an I/O error), which of the refusals are permission errors, the
  number of bytes a refused copy writes before it fails, and the trace of the calls made
  so far.
\<close>

type_synonym location = "bool \<times> string list"

datatype node = Directory | Regular string

datatype call =
    Stat string | Open string | MkdirAll string | Create string
  | Copy location | Remove string | ReadBody

datatype os_error = ErrNotExist | ErrPermission | ErrOther

record world =
  entries :: "(location \<times> node) list"
  refused :: "call \<Rightarrow> bool"
  denied :: "call \<Rightarrow> bool"
  short_write :: nat
  trace :: "call list"

definition resolve :: "string \<Rightarrow> location option" where
  "resolve p = (if p = [] then None else Some (rooted p, clean_elems p))"

definition lookup :: "world \<Rightarrow> string \<Rightarrow> node option" where
  "lookup w p = (case resolve p of None \<Rightarrow> None | Some l \<Rightarrow> map_of (entries w) l)"

definition log :: "call \<Rightarrow> world \<Rightarrow> world" where
  "log c w = w\<lparr>trace := trace w @ [c]\<rparr>"

text \<open>
  \<open>os.Stat\<close> fails when the system refuses, whether or not anything exists at the path,
  and when nothing exists there. Only the second failure satisfies \<open>os.IsNotExist\<close>.
\<close>

definition os_Stat :: "world \<Rightarrow> string \<Rightarrow> os_error option \<times> world" where
  "os_Stat w p =
     (if refused w (Stat p) then Some (if denied w (Stat p) then ErrPermission else ErrOther)
      else case lookup w p of None \<Rightarrow> Some ErrNotExist | Some n \<Rightarrow> None,
      log (Stat p) w)"

definition os_IsNotExist :: "os_error option \<Rightarrow> bool" where
  "os_IsNotExist err = (err = Some ErrNotExist)"

text \<open>\<open>os.Open\<close> succeeds on anything that exists, unless the system refuses.\<close>

definition os_Open :: "world \<Rightarrow> string \<Rightarrow> (os_error + location) \<times> world" where
  "os_Open w p =
     (case resolve p of
        None \<Rightarrow> Inl ErrNotExist
      | Some l \<Rightarrow>
          if map_of (entries w) l = None then Inl ErrNotExist
          else if refused w (Open p)
          then Inl (if denied w (Open p) then ErrPermission else ErrOther)
          else Inr l,
      log (Open p) w)"

text \<open>
  \<open>os.MkdirAll\<close> creates the directory and every missing parent; it fails when the
  system refuses or when the path or one of its parents is a regular file, and then
  changes nothing.
\<close>

definition ancestors :: "location \<Rightarrow> location list" where
  "ancestors l = map (\<lambda>k. (fst l, take k (snd l))) [0..<Suc (length (snd l))]"

definition add_directory :: "(location \<times> node) list \<Rightarrow> location \<Rightarrow> (location \<times> node) list" where
  "add_directory es l = (if map_of es l = None then es @ [(l, Directory)] else es)"

definition is_regular :: "(location \<times> node) list \<Rightarrow> location \<Rightarrow> bool" where
  "is_regular es l = (case map_of es l of Some (Regular b) \<Rightarrow> True | _ \<Rightarrow> False)"

definition os_MkdirAll :: "world \<Rightarrow> string \<Rightarrow> os_error option \<times> world" where
  "os_MkdirAll w p =
     (case resolve p of
        None \<Rightarrow> (Some ErrNotExist, log (MkdirAll p) w)
      | Some l \<Rightarrow>
          if refused w (MkdirAll p) \<or> list_ex (is_regular (entries w)) (ancestors l)
          then (Some ErrOther, log (MkdirAll p) w)
          else (None, log (MkdirAll p)
                        (w\<lparr>entries := foldl add_directory (entries w) (ancestors l)\<rparr>)))"

text \<open>
  \<open>os.Create\<close> makes an empty regular file or truncates an existing one. It fails when
  the parent is not an existing directory, when the path names a directory, and when the
  system refuses.
\<close>

definition os_Create :: "world \<Rightarrow> string \<Rightarrow> (os_error + location) \<times> world" where
  "os_Create w p =
     (case resolve p of
        None \<Rightarrow> (Inl ErrNotExist, log (Create p) w)
      | Some (r, es) \<Rightarrow>
          if es = [] \<or> last es = ''..'' then (Inl ErrOther, log (Create p) w)
          else if map_of (entries w) (r, butlast es) \<noteq> Some Directory
          then (Inl ErrNotExist, log (Create p) w)
          else if map_of (entries w) (r, es) = Some Directory \<or> refused w (Create p)
          then (Inl ErrOther, log (Create p) w)
          else (Inr (r, es),
                log (Create p) (w\<lparr>entries := AList.update (r, es) (Regular []) (entries w)\<rparr>)))"

text \<open>
  \<open>io.Copy\<close> into a file opened with \<open>os.Create\<close>: all bytes are written, or the
  first \<open>short_write\<close> of them when the copy fails.
\<close>

definition io_Copy :: "world \<Rightarrow> location \<Rightarrow> string \<Rightarrow> os_error option \<times> world" where
  "io_Copy w dst src =
     (if refused w (Copy dst)
      then (Some ErrOther,
            log (Copy dst)
              (w\<lparr>entries := AList.update dst (Regular (take (short_write w) src)) (entries w)\<rparr>))
      else (None,
            log (Copy dst) (w\<lparr>entries := AList.update dst (Regular src) (entries w)\<rparr>)))"

text \<open>
  \<open>os.Remove\<close> removes a regular file or an empty directory; it fails when nothing
  exists at the path, when a directory is not empty, and when the system refuses.
\<close>

definition has_children :: "(location \<times> node) list \<Rightarrow> location \<Rightarrow> bool" where
  "has_children es l =
     list_ex (\<lambda>(l', n). snd l' \<noteq> [] \<and> (fst l', butlast (snd l')) = l) es"

definition os_Remove :: "world \<Rightarrow> string \<Rightarrow> os_error option \<times> world" where
  "os_Remove w p =
     (case resolve p of
        None \<Rightarrow> (Some ErrNotExist, log (Remove p) w)
      | Some l \<Rightarrow>
          (case map_of (entries w) l of
             None \<Rightarrow> (Some ErrNotExist, log (Remove p) w)
           | Some n \<Rightarrow>
               if refused w (Remove p) \<or> (n = Directory \<and> has_children (entries w) l)
               then (Some ErrOther, log (Remove p) w)
               else (None, log (Remove p) (w\<lparr>entries := AList.delete l (entries w)\<rparr>))))"

text \<open>
  \<open>c.Request.FormFile(key)\<close> reads the request body: it fails when the body is not a
  multipart form and when the form has no file under that key.
\<close>

datatype form_error = ErrNotMultipart | ErrMissingFile

definition Size :: "upload \<Rightarrow> int" where
  "Size u = int (length (content u))"

definition Request_FormFile :: "world \<Rightarrow> gin_Context \<Rightarrow> string \<Rightarrow> (form_error + upload) \<times> world" where
  "Request_FormFile w c key =
     (case Multipart c of
        None \<Rightarrow> Inl ErrNotMultipart
      | Some parts \<Rightarrow>
          (case map_of parts key of None \<Rightarrow> Inl ErrMissingFile | Some u \<Rightarrow> Inr u),
      log ReadBody w)"

section \<open>Responses\<close>

text \<open>
  A handler answers with a status and a JSON object (\<open>c.JSON\<close>, \<open>c.IndentedJSON\<close> with
  a \<open>gin.H\<close>), or through \<open>c.File\<close> with a status, headers and a body (\<open>Answer\<close>).
  The headers of an \<open>Answer\<close> are those whose value the model determines:
  \<open>Last-Modified\<close>, which carries the modification time of the file, and the
  \<open>Location\<close> of a redirect, which is \<open>./\<close> followed by the raw query string, are
  left out. Two outcomes of \<open>c.File\<close> are not spelled out: the answer to a request with
  a precondition or range header, which depends on the modification time and is one of
  200, 206, 304, 412 and 416 (\<open>Conditional\<close>, with the headers so far and the bytes of the
  file), and the page that lists a directory (\<open>Listing\<close>). \<open>NoRoute\<close> stands for a
  request that no handler of \<open>main.go\<close> receives.
\<close>

datatype json = JString string | JNumber int

datatype response =
    JSON nat "(string \<times> json) list"
  | Answer nat "(string \<times> string) list" string
  | Conditional "(string \<times> string) list" string
  | Listing "(string \<times> string) list" location
  | NoRoute

text \<open>\<open>c.Header(key, value)\<close> sets the header, and deletes it when the value is empty.\<close>

definition Header :: "(string \<times> string) list \<Rightarrow> string \<Rightarrow> string \<Rightarrow> (string \<times> string) list" where
  "Header hs key v = (if v = [] then AList.delete key hs else AList.update key v hs)"

text \<open>\<open>Header.Get(key)\<close>: the value of the header, or the empty string.\<close>

definition Header_Get :: "(string \<times> string) list \<Rightarrow> string \<Rightarrow> string" where
  "Header_Get hs key = (case map_of hs key of None \<Rightarrow> [] | Some v \<Rightarrow> v)"

section \<open>\<open>c.File\<close>: \<open>http.ServeFile\<close>\<close>

text \<open>
  \<open>c.File(filepath)\<close> is \<open>http.ServeFile(c.Writer, c.Request, filepath)\<close>. It rejects
  a URL path with a \<open>..\<close> element, where the elements are separated by slashes and
  backslashes (\<open>strings.FieldsFunc\<close> drops the empty ones).
\<close>

fun split_on :: "(char \<Rightarrow> bool) \<Rightarrow> string \<Rightarrow> string list" where
  "split_on f [] = [[]]"
| "split_on f (c # cs) =
     (if f c then [] # split_on f cs
      else case split_on f cs of [] \<Rightarrow> [[c]] | x # xs \<Rightarrow> (c # x) # xs)"

definition FieldsFunc :: "string \<Rightarrow> (char \<Rightarrow> bool) \<Rightarrow> string list" where
  "FieldsFunc v f = filter (\<lambda>e. e \<noteq> []) (split_on f v)"

definition isSlashRune :: "char \<Rightarrow> bool" where
  "isSlashRune r = (r = CHR ''/'' \<or> r = CHR 0x5C)"

definition containsDotDot :: "string \<Rightarrow> bool" where
  "containsDotDot v = list_ex (\<lambda>ent. ent = ''..'') (FieldsFunc v isSlashRune)"

definition HasSuffix :: "string \<Rightarrow> string \<Rightarrow> bool" where
  "HasSuffix s suffix =
     (length suffix \<le> length s \<and> drop (length s - length suffix) s = suffix)"

definition TrimSuffix :: "string \<Rightarrow> string \<Rightarrow> string" where
  "TrimSuffix s suffix = (if HasSuffix s suffix then take (length s - length suffix) s else s)"

text \<open>
  \<open>filepath.Split\<close> cuts the path after its last separator; \<open>filepath.Base\<close> is the
  last element of the path once its trailing separators are removed.
\<close>

definition filepath_Split :: "string \<Rightarrow> string \<times> string" where
  "filepath_Split path =
     (let file = rev (takeWhile (\<lambda>c. c \<noteq> CHR ''/'') (rev path))
      in (take (length path - length file) path, file))"

definition filepath_Base :: "string \<Rightarrow> string" where
  "filepath_Base path =
     (if path = [] then ''.''
      else
        let p = rev (dropWhile (\<lambda>c. c = CHR ''/'') (rev path));
            e = rev (takeWhile (\<lambda>c. c \<noteq> CHR ''/'') (rev p))
        in if e = [] then ''/'' else e)"

text \<open>
  \<open>http.Error\<close> as \<open>ServeFile\<close> calls it: the headers meant for a successful answer
  are removed, the content type is reset, and the body is the message and a newline.
\<close>

definition serveError :: "(string \<times> string) list \<Rightarrow> string \<Rightarrow> nat \<Rightarrow> response" where
  "serveError hs text code =
     (let h1 = foldr AList.delete
                 [''Cache-Control'', ''Content-Encoding'', ''Etag'', ''Last-Modified'',
                  ''Content-Length''] hs;
          h2 = AList.update ''Content-Type'' ''text/plain; charset=utf-8'' h1;
          h3 = AList.update ''X-Content-Type-Options'' ''nosniff'' h2
      in Answer code h3 (text @ [CHR 0x0A]))"

definition toHTTPError :: "os_error \<Rightarrow> string \<times> nat" where
  "toHTTPError err =
     (case err of
        ErrNotExist \<Rightarrow> (''404 page not found'', 404)
      | ErrPermission \<Rightarrow> (''403 Forbidden'', 403)
      | ErrOther \<Rightarrow> (''500 Internal Server Error'', 500))"

text \<open>\<open>localRedirect\<close>: status 301 and no body.\<close>

definition localRedirect :: "(string \<times> string) list \<Rightarrow> response" where
  "localRedirect hs = Answer 301 hs []"

text \<open>
  \<open>http.Dir(dir).Open(name)\<close> opens the cleaned name below the directory, so that a
  name cannot lead out of it; an empty directory stands for the current one. The result
  is the path that was opened and its location. An error of \<open>os.Open\<close> is passed on:
  \<open>mapOpenError\<close> replaces it by absence only for a path below a regular file, where
  \<open>os_Open\<close> finds nothing in a world that holds no entry there.
\<close>

definition Dir_Open :: "world \<Rightarrow> string \<Rightarrow> string \<Rightarrow> (os_error + string \<times> location) \<times> world" where
  "Dir_Open w dir name =
     (let p = tl (filepath_Clean (CHR ''/'' # name));
          fullName = filepath_Join (if dir = [] then ''.'' else dir) (if p = [] then ''.'' else p);
          (f, w1) = os_Open w fullName
      in (case f of Inl err \<Rightarrow> Inl err | Inr l \<Rightarrow> Inr (fullName, l), w1))"

text \<open>
  \<open>serveContent\<close> for a request without precondition and range headers: the content
  type is the one the handler has set; without one it is looked up by the extension of
  the name of the opened file, and sniffed from the first 512 bytes when the lookup gives
  nothing. The body is the whole file, except for a \<open>HEAD\<close> request.
\<close>

definition is_conditional :: "gin_Context \<Rightarrow> bool" where
  "is_conditional c =
     list_ex (\<lambda>key. Header_Get (RequestHeaders c) key \<noteq> [])
       [''If-Match'', ''If-Unmodified-Since'', ''If-None-Match'', ''If-Modified-Since'', ''Range'']"

definition serveContent ::
  "platform \<Rightarrow> gin_Context \<Rightarrow> (string \<times> string) list \<Rightarrow> string \<Rightarrow> string \<Rightarrow> response" where
  "serveContent pf c hs name b =
     (if is_conditional c then Conditional hs b
      else
        let h1 = (if map_of hs ''Content-Type'' \<noteq> None then hs
                  else
                    let ctype = mime_TypeByExtension pf (filepath_Ext name)
                    in AList.update ''Content-Type''
                         (if ctype = [] then http_DetectContentType pf (take 512 b) else ctype) hs);
            h2 = AList.update ''Accept-Ranges'' ''bytes'' h1;
            h3 = (if Header_Get h2 ''Content-Encoding'' = []
                  then AList.update ''Content-Length'' (FormatInt (int (length b))) h2
                  else h2)
        in Answer 200 h3 (if Method c = ''HEAD'' then [] else b))"

text \<open>
  \<open>serveFile\<close>: a URL path that ends in \<open>/index.html\<close> is redirected before anything
  is opened. A directory is redirected when the URL path does not end in a slash;
  otherwise its \<open>index.html\<close> is served in its place when that can be opened.
\<close>

definition serveFile ::
  "platform \<Rightarrow> world \<Rightarrow> gin_Context \<Rightarrow> (string \<times> string) list \<Rightarrow> string \<Rightarrow> string \<Rightarrow>
     response \<times> world" where
  "serveFile pf w c hs dir name =
     (if HasSuffix (URLPath c) ''/index.html'' then (localRedirect hs, w)
      else
        let (f, w1) = Dir_Open w dir name
        in case f of
             Inl err \<Rightarrow> (serveError hs (fst (toHTTPError err)) (snd (toHTTPError err)), w1)
           | Inr (full, l) \<Rightarrow>
               (case map_of (entries w1) l of
                  None \<Rightarrow>
                    (serveError hs (fst (toHTTPError ErrNotExist)) (snd (toHTTPError ErrNotExist)),
                     w1)
                | Some (Regular b) \<Rightarrow> (serveContent pf c hs (filepath_Base full) b, w1)
                | Some Directory \<Rightarrow>
                    if URLPath c = [] \<or> last (URLPath c) \<noteq> CHR ''/''
                    then (localRedirect hs, w1)
                    else
                      let index = TrimSuffix name ''/'' @ ''/index.html'';
                          (ff, w2) = Dir_Open w1 dir index
                      in case ff of
                           Inl err \<Rightarrow> (Listing hs l, w2)
                         | Inr (full2, l2) \<Rightarrow>
                             (case map_of (entries w2) l2 of
                                Some (Regular b) \<Rightarrow>
                                  (serveContent pf c hs (filepath_Base full2) b, w2)
                              | Some Directory \<Rightarrow> (Listing hs l2, w2)
                              | None \<Rightarrow> (Listing hs l, w2))))"

definition http_ServeFile ::
  "platform \<Rightarrow> world \<Rightarrow> gin_Context \<Rightarrow> (string \<times> string) list \<Rightarrow> string \<Rightarrow>
     response \<times> world" where
  "http_ServeFile pf w c hs name =
     (if containsDotDot (URLPath c) then (serveError hs ''invalid URL path'' 400, w)
      else
        let (dir, file) = filepath_Split name
        in serveFile pf w c hs dir file)"

definition c_File :: "platform \<Rightarrow> world \<Rightarrow> gin_Context \<Rightarrow> (string \<times> string) list \<Rightarrow> string \<Rightarrow>
     response \<times> world" where
  "c_File pf w c hs filepath = http_ServeFile pf w c hs filepath"

section \<open>The handlers of \<open>main.go\<close>\<close>

definition SignedURLMiddleware ::
  "config \<Rightarrow> platform \<Rightarrow> (world \<Rightarrow> gin_Context \<Rightarrow> response \<times> world) \<Rightarrow>
     world \<Rightarrow> gin_Context \<Rightarrow> response \<times> world" where
  "SignedURLMiddleware cfg pf next w c =
     (if \<not> validateUrl cfg (unix_now pf) c
      then (JSON 403 [(''error'', JString ''Invalid or expired URL'')], w)
      else next w c)"

definition GET_root :: "world \<Rightarrow> gin_Context \<Rightarrow> response \<times> world" where
  "GET_root w c = (JSON 200 [(''message'', JString ''Server is running'')], w)"

definition GET_image :: "config \<Rightarrow> platform \<Rightarrow> world \<Rightarrow> gin_Context \<Rightarrow> response \<times> world" where
  "GET_image cfg pf w c =
     (let filename = Param c ''filename'';
          path = filepath_Join (uploadDirPath cfg) filename;
          (file, w1) = os_Open w path
      in case file of
           Inl err \<Rightarrow> (JSON 404 [(''message'', JString ''File not found'')], w1)
         | Inr f \<Rightarrow>
             let h1 = Header [] ''Content-Disposition'' (''inline; filename='' @ filename);
                 h2 = Header h1 ''Content-Type'' (getMimeType pf filename)
             in c_File pf w1 c h2 path)"

text \<open>
  The statement \<open>if _, err := os.Stat(uploadDirPath); os.IsNotExist(err) { os.MkdirAll(...) }\<close>
  of the upload handler; the result of \<open>os.MkdirAll\<close> is dropped.
\<close>

definition ensure_upload_dir :: "config \<Rightarrow> world \<Rightarrow> world" where
  "ensure_upload_dir cfg w =
     (let (err, w1) = os_Stat w (uploadDirPath cfg)
      in if os_IsNotExist err then snd (os_MkdirAll w1 (uploadDirPath cfg)) else w1)"

definition POST_images :: "config \<Rightarrow> platform \<Rightarrow> world \<Rightarrow> gin_Context \<Rightarrow> response \<times> world" where
  "POST_images cfg pf w c =
     (let (file, w1) = Request_FormFile w c ''file''
      in case file of
           Inl err \<Rightarrow> (JSON 400 [(''message'', JString ''File not found in the request'')], w1)
         | Inr fileHeader \<Rightarrow>
             let w3 = ensure_upload_dir cfg w1;
                 extentionName = filepath_Ext (Filename fileHeader);
                 newFileName = uuid_String (uuid_New (random_bytes pf)) @ extentionName;
                 destinationPath = filepath_Join (uploadDirPath cfg) newFileName;
                 (destinationFile, w4) = os_Create w3 destinationPath
             in case destinationFile of
                  Inl err \<Rightarrow> (JSON 500 [(''message'', JString ''Failed to create file.'')], w4)
                | Inr dst \<Rightarrow>
                    let (err, w5) = io_Copy w4 dst (content fileHeader)
                    in case err of
                         Some e \<Rightarrow> (JSON 500 [(''message'', JString ''Failed to save file.'')], w5)
                       | None \<Rightarrow>
                           (JSON 200
                              [(''message'', JString ''File uploaded''),
                               (''filename'', JString newFileName),
                               (''original_filename'', JString (Filename fileHeader)),
                               (''size'', JNumber (Size fileHeader))],
                            w5))"

definition PUT_image :: "config \<Rightarrow> platform \<Rightarrow> world \<Rightarrow> gin_Context \<Rightarrow> response \<times> world" where
  "PUT_image cfg pf w c =
     (let path = filepath_Join (uploadDirPath cfg) (Param c ''filename'');
          (err, w1) = os_Stat w path
      in if os_IsNotExist err
         then (JSON 404 [(''message'', JString ''File Not found.'')], w1)
         else
           let (file, w2) = Request_FormFile w1 c ''file''
           in case file of
                Inl err \<Rightarrow>
                  (JSON 400 [(''message'', JString ''File not found in the request'')], w2)
              | Inr header \<Rightarrow>
                  let (existingFile, w3) = os_Create w2 path
                  in case existingFile of
                       Inl err \<Rightarrow>
                         (JSON 500 [(''message'', JString ''Failed to create file.'')], w3)
                     | Inr dst \<Rightarrow>
                         let (err, w4) = io_Copy w3 dst (content header)
                         in case err of
                              Some e \<Rightarrow>
                                (JSON 500 [(''message'', JString ''Failed to save file.'')], w4)
                            | None \<Rightarrow>
                                (JSON 200
                                   [(''message'', JString ''File updated''),
                                    (''size'', JNumber (Size header))],
                                 w4))"

definition DELETE_image :: "config \<Rightarrow> platform \<Rightarrow> world \<Rightarrow> gin_Context \<Rightarrow> response \<times> world" where
  "DELETE_image cfg pf w c =
     (let path = filepath_Join (uploadDirPath cfg) (Param c ''filename'');
          (err, w1) = os_Remove w path
      in case err of
           Some e \<Rightarrow> (JSON 500 [(''message'', JString ''Failed to remove file.'')], w1)
         | None \<Rightarrow> (JSON 200 [(''message'', JString ''File removed'')], w1))"

section \<open>The router\<close>

text \<open>
  The routes registered in \<open>main\<close>. A \<open>:filename\<close> parameter matches one non-empty path
  segment. A request that matches no route reaches no handler of \<open>main.go\<close>.
\<close>

record request =
  reqMethod :: string
  reqPath :: string
  reqQuery :: "(string \<times> string) list"
  reqBody :: "(string \<times> upload) list option"
  reqHeaders :: "(string \<times> string) list"

datatype route = RootStatus | ImageGet | ImagesPost | ImagePut | ImageDelete

definition match_route :: "string \<Rightarrow> string \<Rightarrow> (route \<times> (string \<times> string) list) option" where
  "match_route m p =
     (if p = ''/'' then (if m = ''GET'' then Some (RootStatus, []) else None)
      else if p = ''/images'' then (if m = ''POST'' then Some (ImagesPost, []) else None)
      else if take 8 p = ''/images/'' \<and> drop 8 p \<noteq> [] \<and> CHR ''/'' \<notin> set (drop 8 p) then
        (if m = ''GET'' then Some (ImageGet, [(''filename'', drop 8 p)])
         else if m = ''PUT'' then Some (ImagePut, [(''filename'', drop 8 p)])
         else if m = ''DELETE'' then Some (ImageDelete, [(''filename'', drop 8 p)])
         else None)
      else None)"

definition context_of :: "request \<Rightarrow> (string \<times> string) list \<Rightarrow> gin_Context" where
  "context_of req ps =
     \<lparr>Method = reqMethod req, Params = ps, QueryPairs = reqQuery req, Multipart = reqBody req,
      URLPath = reqPath req, RequestHeaders = reqHeaders req\<rparr>"

definition handler_of :: "config \<Rightarrow> platform \<Rightarrow> route \<Rightarrow> world \<Rightarrow> gin_Context \<Rightarrow> response \<times> world" where
  "handler_of cfg pf r =
     (case r of
        RootStatus \<Rightarrow> GET_root
      | ImageGet \<Rightarrow> SignedURLMiddleware cfg pf (GET_image cfg pf)
      | ImagesPost \<Rightarrow> SignedURLMiddleware cfg pf (POST_images cfg pf)
      | ImagePut \<Rightarrow> SignedURLMiddleware cfg pf (PUT_image cfg pf)
      | ImageDelete \<Rightarrow> SignedURLMiddleware cfg pf (DELETE_image cfg pf))"

definition serve :: "config \<Rightarrow> platform \<Rightarrow> world \<Rightarrow> request \<Rightarrow> response \<times> world" where
  "serve cfg pf w req =
     (case match_route (reqMethod req) (reqPath req) of
        None \<Rightarrow> (NoRoute, w)
      | Some (r, ps) \<Rightarrow> handler_of cfg pf r w (context_of req ps))"

section \<open>Notions used in the proofs about paths\<close>

text \<open>Cleaned element lists: no empty, dot or slashed element, and \<open>..\<close> only in front.\<close>

fun dots_first :: "string list \<Rightarrow> bool" where
  "dots_first [] = True"
| "dots_first (x # xs) = (if x = ''..'' then dots_first xs else ''..'' \<notin> set xs)"

definition cleaned :: "bool \<Rightarrow> string list \<Rightarrow> bool" where
  "cleaned r es \<longleftrightarrow>
     (\<forall>e \<in> set es. e \<noteq> [] \<and> e \<noteq> ''.'' \<and> CHR ''/'' \<notin> set e) \<and>
     (r \<longrightarrow> ''..'' \<notin> set es) \<and> dots_first es"

text \<open>A name that is one ordinary path element.\<close>

definition simple_name :: "string \<Rightarrow> bool" where
  "simple_name n \<longleftrightarrow> n \<noteq> [] \<and> n \<noteq> ''.'' \<and> n \<noteq> ''..'' \<and> CHR ''/'' \<notin> set n"



section \<open>Example data\<close>

text \<open>
  A configuration, a platform, a world with one stored file, and requests signed for the
  example key with the expiration 1999999999.
\<close>

definition example_config :: config where
  "example_config = \<lparr>uploadDirPath = ''uploads'', secretKey = ''s3cr3t''\<rparr>"

definition example_platform :: platform where
  "example_platform =
     \<lparr>unix_now = 1000,
      random_bytes = map char_of [0 :: nat, 1, 2, 3, 4, 5, 6, 7, 8, 9, 10, 11, 12, 13, 14, 255],
      mime_TypeByExtension = (\<lambda>e. if e = ''.jpg'' then ''image/jpeg'' else []),
      http_DetectContentType = (\<lambda>b. ''application/octet-stream'')\<rparr>"

definition example_world :: world where
  "example_world =
     \<lparr>entries = [((False, []), Directory), ((False, [''uploads'']), Directory),
                 ((False, [''uploads'', ''a.jpg'']), Regular ''abc'')],
      refused = (\<lambda>c. False), denied = (\<lambda>c. False), short_write = 0, trace = []\<rparr>"

text \<open>
  The same world, but the system refuses to stat and to create \<open>uploads/zz.jpg\<close>, as it
  does for a directory that may not be searched.
\<close>

definition guarded_world :: world where
  "guarded_world =
     example_world
       \<lparr>refused := (\<lambda>c. c = Stat ''uploads/zz.jpg'' \<or> c = Create ''uploads/zz.jpg''),
        denied := (\<lambda>c. True)\<rparr>"


definition signed_request :: "string \<Rightarrow> string \<Rightarrow> (string \<times> upload) list option \<Rightarrow> request" where
  "signed_request m p b =
     \<lparr>reqMethod = m, reqPath = p,
      reqQuery = [(''expires'', ''1999999999''),
                  (''signature'', generateSignedUrl_signature ''s3cr3t'' m (drop 8 p) 1999999999)],
      reqBody = b, reqHeaders = []\<rparr>"

section \<open>Facts about the library functions\<close>

lemma xor_nat_eq_0_iff: "(a::nat) XOR b = 0 \<longleftrightarrow> a = b"
proof
  assume "a XOR b = 0"
  then have "(a XOR b) XOR b = 0 XOR b" by simp
  then show "a = b" by (simp add: xor.assoc)
next
  assume "a = b"
  then show "a XOR b = 0" by simp
qed

lemma fold_or_zero:
  "length x = length y \<Longrightarrow>
   foldl (\<lambda>v (a, b). v OR ((of_char a :: nat) XOR of_char b)) v (zip x y) = 0 \<longleftrightarrow> v = 0 \<and> x = y"
proof (induction x y arbitrary: v rule: list_induct2)
  case Nil
  then show ?case by simp
next
  case (Cons a x b y)
  have "foldl (\<lambda>v (a, b). v OR ((of_char a :: nat) XOR of_char b)) v (zip (a # x) (b # y)) = 0
        \<longleftrightarrow> (v OR ((of_char a :: nat) XOR of_char b)) = 0 \<and> x = y"
    using Cons.IH [of "v OR ((of_char a :: nat) XOR of_char b)"] by simp
  also have "\<dots> \<longleftrightarrow> v = 0 \<and> a # x = b # y"
    by (simp add: or_eq_0_iff xor_nat_eq_0_iff conj_ac)
  finally show ?case .
qed

lemma ConstantTimeCompare_eq: "ConstantTimeCompare x y = 1 \<longleftrightarrow> x = y"
proof (cases "length x = length y")
  case True
  then show ?thesis using fold_or_zero [of x y 0] by (simp add: ConstantTimeCompare_def)
next
  case False
  then show ?thesis by (auto simp: ConstantTimeCompare_def)
qed

lemma hmac_Equal_iff: "hmac_Equal x y \<longleftrightarrow> x = y"
  by (simp add: hmac_Equal_def ConstantTimeCompare_eq)

lemma length_be32: "length (be32 v) = 4"
  by (simp add: be32_def)

lemma length_digest_bytes: "length (digest_bytes s) = 32"
  by (cases s rule: digest_bytes.cases) (simp add: length_be32)

lemma length_sha256: "length (sha256 m) = 32"
  by (simp add: sha256_def length_digest_bytes)

lemma length_hmac_sha256: "length (hmac_sha256 key msg) = 32"
  by (simp add: hmac_sha256_def Let_def length_sha256)

lemma length_EncodeToString: "length (EncodeToString bs) = 2 * length bs"
  by (induction bs) auto

lemma signature_nonempty: "EncodeToString (hmac_sha256 key msg) \<noteq> []"
  using length_EncodeToString [of "hmac_sha256 key msg"] length_hmac_sha256 [of key msg] by auto

lemma ParseUint_loop_append:
  "ParseUint_loop a (xs @ ys) =
     (case ParseUint_loop a xs of Inl e \<Rightarrow> Inl e | Inr b \<Rightarrow> ParseUint_loop b ys)"
  by (induction xs arbitrary: a) auto

lemma of_char_digit: "d < 10 \<Longrightarrow> (of_char (char_of (48 + d)) :: nat) = 48 + d"
  by simp

lemma ParseUint_loop_digits10:
  "n \<le> maxUint64 \<Longrightarrow> ParseUint_loop 0 (digits10 n) = Inr n"
proof (induction n rule: digits10.induct)
  case (1 n)
  show ?case
  proof (cases "n < 10")
    case True
    then show ?thesis
      by (subst digits10.simps) (simp add: maxUint64_def)
  next
    case False
    have le: "n div 10 \<le> maxUint64" using "1.prems" by simp
    have ih: "ParseUint_loop 0 (digits10 (n div 10)) = Inr (n div 10)"
      using "1.IH" [OF False le] .
    have d: "(of_char (char_of (48 + n mod 10)) :: nat) = 48 + n mod 10"
      by (rule of_char_digit) simp
    have c: "\<not> n div 10 \<ge> maxUint64 div 10 + 1"
      using "1.prems" by (simp add: maxUint64_def)
    have v: "n div 10 * 10 + n mod 10 = n" by simp
    show ?thesis
      using False "1.prems" c
      by (subst digits10.simps) (simp add: ParseUint_loop_append ih d v)
  qed
qed

lemma digits10_chars: "c \<in> set (digits10 n) \<Longrightarrow> 48 \<le> (of_char c :: nat) \<and> (of_char c :: nat) \<le> 57"
proof (induction n rule: digits10.induct)
  case (1 n)
  show ?case
  proof (cases "n < 10")
    case True
    then show ?thesis using "1.prems" by (subst (asm) digits10.simps) auto
  next
    case False
    have "(of_char (char_of (48 + n mod 10)) :: nat) = 48 + n mod 10"
      by (rule of_char_digit) simp
    then show ?thesis using "1.prems" "1.IH" [OF False] False
      by (subst (asm) digits10.simps) auto
  qed
qed

lemma digits10_nonempty: "digits10 n \<noteq> []"
  by (subst digits10.simps) simp

lemma hd_digits10: "hd (digits10 n) \<noteq> CHR ''+'' \<and> hd (digits10 n) \<noteq> CHR ''-''"
proof -
  have "hd (digits10 n) \<in> set (digits10 n)" by (simp add: digits10_nonempty)
  from digits10_chars [OF this] show ?thesis by auto
qed

lemma ParseUint_digits10: "n \<le> maxUint64 \<Longrightarrow> ParseUint (digits10 n) = Inr n"
  by (simp add: ParseUint_def digits10_nonempty ParseUint_loop_digits10)

lemma ParseInt_FormatInt:
  assumes "- (2 ^ 63) \<le> e" and "e < 2 ^ 63"
  shows "ParseInt (FormatInt e) = Inr e"
proof (cases "e < 0")
  case True
  have m: "nat (- e) \<le> maxUint64" using assms by (simp add: maxUint64_def)
  have b: "\<not> nat (- e) > 2 ^ 63" using assms by simp
  show ?thesis
    using True b by (simp add: ParseInt_def FormatInt_def ParseUint_digits10 [OF m])
next
  case False
  have m: "nat e \<le> maxUint64" using assms by (simp add: maxUint64_def)
  have b: "\<not> nat e \<ge> 2 ^ 63" using assms False by simp
  show ?thesis
    using False b hd_digits10 [of "nat e"]
    by (simp add: ParseInt_def FormatInt_def ParseUint_digits10 [OF m] digits10_nonempty)
qed

lemma ParseInt_range:
  assumes "ParseInt t = Inr e"
  shows "t \<noteq> [] \<and> - (2 ^ 63) \<le> e \<and> e < 2 ^ 63"
  using assms
  by (auto simp: ParseInt_def Let_def split: if_splits sum.splits num_error.splits)



lemma ParseInt_1999999999: "ParseInt ''1999999999'' = Inr 1999999999"
  by (simp add: ParseInt_def ParseUint_def maxUint64_def)

lemma ParseInt_plus_123: "ParseInt ''+123'' = Inr 123"
  by (simp add: ParseInt_def ParseUint_def maxUint64_def)

lemma ParseInt_0123: "ParseInt ''0123'' = Inr 123"
  by (simp add: ParseInt_def ParseUint_def maxUint64_def)

lemma FormatInt_1999999999: "FormatInt 1999999999 = ''1999999999''"
  by (simp add: FormatInt_def digits10.simps char_of_eq_iff)

lemma FormatInt_123: "FormatInt 123 = ''123''"
  by (simp add: FormatInt_def digits10.simps char_of_eq_iff)

section \<open>Facts about paths\<close>

lemma split_slash_nonempty: "split_slash p \<noteq> []"
  by (induction p) (auto split: list.splits)

lemma split_slash_no_slash: "CHR ''/'' \<notin> set n \<Longrightarrow> split_slash n = [n]"
  by (induction n) auto

lemma split_slash_append:
  "split_slash (a @ CHR ''/'' # b) = split_slash a @ split_slash b"
  by (induction a) (auto split: list.splits simp: split_slash_nonempty)

lemma split_slash_elems: "e \<in> set (split_slash p) \<Longrightarrow> CHR ''/'' \<notin> set e"
  by (induction p arbitrary: e) (auto split: if_splits list.splits)

lemma split_join:
  "es \<noteq> [] \<Longrightarrow> \<forall>e \<in> set es. CHR ''/'' \<notin> set e \<Longrightarrow> split_slash (join_slash es) = es"
proof (induction es rule: join_slash.induct)
  case 1
  then show ?case by simp
next
  case (2 x)
  then show ?case by (simp add: split_slash_no_slash)
next
  case (3 x y zs)
  then show ?case by (simp add: split_slash_append split_slash_no_slash)
qed

lemma dots_first_snoc:
  "dots_first (xs @ [x]) \<longleftrightarrow> dots_first xs \<and> (x = ''..'' \<longrightarrow> (\<forall>y \<in> set xs. y = ''..''))"
  by (induction xs) auto

lemma dots_first_butlast: "dots_first xs \<Longrightarrow> dots_first (butlast xs)"
proof (cases xs rule: rev_cases)
  case Nil
  then show ?thesis by simp
next
  case (snoc ys y)
  assume "dots_first xs"
  then show ?thesis using snoc by (simp add: dots_first_snoc)
qed

lemma dots_first_all_dots:
  "dots_first xs \<Longrightarrow> xs \<noteq> [] \<Longrightarrow> last xs = ''..'' \<Longrightarrow> \<forall>y \<in> set xs. y = ''..''"
proof (cases xs rule: rev_cases)
  case Nil
  assume "xs \<noteq> []"
  then show ?thesis using Nil by simp
next
  case (snoc ys y)
  assume "dots_first xs" "last xs = ''..''"
  then show ?thesis using snoc by (auto simp: dots_first_snoc)
qed

lemma cleaned_step:
  assumes "cleaned r out" and "CHR ''/'' \<notin> set e"
  shows "cleaned r (clean_step r out e)"
proof -
  have elems: "\<forall>x \<in> set out. x \<noteq> [] \<and> x \<noteq> ''.'' \<and> CHR ''/'' \<notin> set x"
    and root: "r \<longrightarrow> ''..'' \<notin> set out" and df: "dots_first out"
    using assms(1) by (auto simp: cleaned_def)
  consider (skip) "e = [] \<or> e = ''.''"
    | (pop) "e = ''..''" "out \<noteq> []" "last out \<noteq> ''..''"
    | (stay) "e = ''..''" "\<not> (out \<noteq> [] \<and> last out \<noteq> ''..'')" "r"
    | (push_dots) "e = ''..''" "\<not> (out \<noteq> [] \<and> last out \<noteq> ''..'')" "\<not> r"
    | (push) "e \<noteq> []" "e \<noteq> ''.''" "e \<noteq> ''..''"
    by blast
  then show ?thesis
  proof cases
    case skip
    then show ?thesis using assms(1) by (auto simp: clean_step_def)
  next
    case pop
    have "set (butlast out) \<subseteq> set out" by (auto dest: in_set_butlastD)
    then have "cleaned r (butlast out)"
      using elems root dots_first_butlast [OF df] by (auto simp: cleaned_def)
    then show ?thesis using pop by (simp add: clean_step_def)
  next
    case stay
    then show ?thesis using assms(1) by (auto simp: clean_step_def)
  next
    case push_dots
    have all: "\<forall>y \<in> set out. y = ''..''"
    proof (cases "out = []")
      case True
      then show ?thesis by simp
    next
      case False
      then show ?thesis using push_dots(2) dots_first_all_dots [OF df] by blast
    qed
    have "cleaned r (out @ [''..''])"
      using elems push_dots(3) df all by (auto simp: cleaned_def dots_first_snoc)
    then show ?thesis using push_dots by (auto simp: clean_step_def)
  next
    case push
    have "cleaned r (out @ [e])"
      using elems root df push assms(2) by (auto simp: cleaned_def dots_first_snoc)
    then show ?thesis using push by (simp add: clean_step_def)
  qed
qed

lemma cleaned_foldl:
  "cleaned r out \<Longrightarrow> \<forall>e \<in> set es. CHR ''/'' \<notin> set e \<Longrightarrow> cleaned r (foldl (clean_step r) out es)"
  by (induction es arbitrary: out) (auto simp: cleaned_step)

lemma cleaned_clean_elems: "cleaned (rooted p) (clean_elems p)"
  unfolding clean_elems_def
  by (rule cleaned_foldl) (auto simp: cleaned_def split_slash_elems)

lemma foldl_cleaned:
  "cleaned r es \<Longrightarrow> foldl (clean_step r) [] es = es"
proof (induction es rule: rev_induct)
  case Nil
  then show ?case by simp
next
  case (snoc x xs)
  have c: "cleaned r xs" using snoc.prems by (auto simp: cleaned_def dots_first_snoc)
  have ih: "foldl (clean_step r) [] xs = xs" using snoc.IH [OF c] .
  have x: "x \<noteq> []" "x \<noteq> ''.''" using snoc.prems by (auto simp: cleaned_def)
  have dots: "x = ''..'' \<Longrightarrow> \<not> r \<and> (\<forall>y \<in> set xs. y = ''..'')"
    using snoc.prems by (auto simp: cleaned_def dots_first_snoc)
  have "clean_step r xs x = xs @ [x]"
  proof (cases "x = ''..''")
    case True
    have "last xs = ''..''" if "xs \<noteq> []"
    proof -
      have "last xs \<in> set xs" using that by simp
      then show ?thesis using dots [OF True] by blast
    qed
    then have "\<not> (xs \<noteq> [] \<and> last xs \<noteq> ''..'')" by blast
    then show ?thesis using True dots [OF True] by (auto simp: clean_step_def)
  next
    case False
    then show ?thesis using x by (simp add: clean_step_def)
  qed
  then show ?case by (simp add: ih)
qed


lemma join_slash_hd:
  "es \<noteq> [] \<Longrightarrow> hd es \<noteq> [] \<Longrightarrow> join_slash es \<noteq> [] \<and> hd (join_slash es) = hd (hd es)"
  by (induction es rule: join_slash.induct) auto

lemma resolve_Clean:
  assumes "p \<noteq> []"
  shows "resolve (filepath_Clean p) = resolve p"
proof -
  let ?es = "clean_elems p"
  have c: "cleaned (rooted p) ?es" by (rule cleaned_clean_elems)
  then have sl: "\<forall>e \<in> set ?es. CHR ''/'' \<notin> set e" by (simp add: cleaned_def)
  have f: "foldl (clean_step (rooted p)) [] ?es = ?es" by (rule foldl_cleaned [OF c])
  show ?thesis
  proof (cases "rooted p")
    case True
    have r: "rooted (CHR ''/'' # join_slash ?es)" by (simp add: rooted_def)
    have "split_slash (CHR ''/'' # join_slash ?es) = [] # (if ?es = [] then [[]] else ?es)"
      using split_join [OF _ sl] by simp
    then have "clean_elems (CHR ''/'' # join_slash ?es) = ?es"
      using f True r by (auto simp: clean_elems_def clean_step_def)
    then show ?thesis using True r assms by (simp add: resolve_def filepath_Clean_def)
  next
    case False
    show ?thesis
    proof (cases "?es = []")
      case True
      have "clean_elems ''.'' = []" by (simp add: clean_elems_def clean_step_def)
      then show ?thesis
        using True False assms by (simp add: resolve_def filepath_Clean_def rooted_def)
    next
      case ne: False
      have h: "hd ?es \<noteq> []" "CHR ''/'' \<notin> set (hd ?es)"
        using c ne by (auto simp: cleaned_def)
      have j: "join_slash ?es \<noteq> []" "hd (join_slash ?es) = hd (hd ?es)"
        using join_slash_hd [OF ne h(1)] by simp_all
      have "hd (hd ?es) \<in> set (hd ?es)" using h(1) by simp
      then have nr: "\<not> rooted (join_slash ?es)" using h(2) j by (auto simp: rooted_def)
      have "split_slash (join_slash ?es) = ?es" by (rule split_join [OF ne sl])
      then have "clean_elems (join_slash ?es) = ?es"
        using f False nr by (simp add: clean_elems_def)
      then show ?thesis
        using ne False nr j assms by (simp add: resolve_def filepath_Clean_def)
    qed
  qed
qed

lemma resolve_Join:
  assumes "d \<noteq> []" and "simple_name n"
  shows "resolve (filepath_Join d n) = Some (rooted d, clean_elems d @ [n])"
proof -
  have s: "split_slash (d @ CHR ''/'' # n) = split_slash d @ [n]"
    using assms(2) by (simp add: split_slash_append split_slash_no_slash simple_name_def)
  have r: "rooted (d @ CHR ''/'' # n) = rooted d"
    using assms(1) by (simp add: rooted_def)
  have "clean_elems (d @ CHR ''/'' # n) = clean_elems d @ [n]"
    using assms(2) by (simp add: clean_elems_def s r clean_step_def simple_name_def)
  then have "resolve (d @ CHR ''/'' # n) = Some (rooted d, clean_elems d @ [n])"
    by (simp add: resolve_def r)
  moreover have "resolve (filepath_Join d n) = resolve (d @ CHR ''/'' # n)"
    using assms(1) by (simp add: filepath_Join_def resolve_Clean)
  ultimately show ?thesis by simp
qed





lemma Clean_nonempty: "filepath_Clean p \<noteq> []"
proof -
  have c: "cleaned (rooted p) (clean_elems p)" by (rule cleaned_clean_elems)
  show ?thesis
  proof (cases "clean_elems p = []")
    case True
    then show ?thesis by (simp add: filepath_Clean_def)
  next
    case False
    then have "hd (clean_elems p) \<noteq> []" using c by (auto simp: cleaned_def)
    from join_slash_hd [OF False this] show ?thesis by (simp add: filepath_Clean_def)
  qed
qed

lemma Clean_cong:
  assumes "a \<noteq> []" and "b \<noteq> []" and "rooted a = rooted b" and "clean_elems a = clean_elems b"
  shows "filepath_Clean a = filepath_Clean b"
  using assms by (simp add: filepath_Clean_def)

lemma Clean_idem:
  assumes "p \<noteq> []"
  shows "filepath_Clean (filepath_Clean p) = filepath_Clean p"
proof -
  have "resolve (filepath_Clean p) = resolve p" by (rule resolve_Clean [OF assms])
  then have "rooted (filepath_Clean p) = rooted p" "clean_elems (filepath_Clean p) = clean_elems p"
    using assms Clean_nonempty [of p] by (simp_all add: resolve_def)
  then show ?thesis by (rule Clean_cong [OF Clean_nonempty assms])
qed

lemma clean_elems_simple: "simple_name n \<Longrightarrow> clean_elems n = [n]"
  by (simp add: clean_elems_def split_slash_no_slash clean_step_def simple_name_def)


lemma Join_simple:
  assumes "simple_name n"
  shows "\<exists>q X. q \<noteq> [] \<and> filepath_Join d n = filepath_Clean q \<and> clean_elems q = X @ [n]"
proof (cases "d = []")
  case True
  have "n \<noteq> []" using assms by (simp add: simple_name_def)
  then have "filepath_Join d n = filepath_Clean n" using True by (simp add: filepath_Join_def)
  moreover have "clean_elems n = [] @ [n]" using clean_elems_simple [OF assms] by simp
  ultimately show ?thesis using \<open>n \<noteq> []\<close> by blast
next
  case False
  have s: "split_slash (d @ CHR ''/'' # n) = split_slash d @ [n]"
    using assms by (simp add: split_slash_append split_slash_no_slash simple_name_def)
  have r: "rooted (d @ CHR ''/'' # n) = rooted d"
    using False by (simp add: rooted_def)
  have "clean_elems (d @ CHR ''/'' # n) = clean_elems d @ [n]"
    using assms by (simp add: clean_elems_def s r clean_step_def simple_name_def)
  moreover have "filepath_Join d n = filepath_Clean (d @ CHR ''/'' # n)"
    using False by (simp add: filepath_Join_def)
  moreover have "d @ CHR ''/'' # n \<noteq> []" by simp
  ultimately show ?thesis by blast
qed



lemma Clean_Join_simple:
  assumes "simple_name n"
  shows "filepath_Clean (filepath_Join d n) = filepath_Join d n"
proof -
  obtain q X where q: "q \<noteq> []" "filepath_Join d n = filepath_Clean q"
    using Join_simple [OF assms] by blast
  then show ?thesis using Clean_idem [OF q(1)] by simp
qed







lemma hextable_no_slash: "CHR ''/'' \<notin> set hextable"
  by (simp add: hextable_def)

lemma div16_less: "n < 256 \<Longrightarrow> n div 16 < (16::nat)"
  by simp

lemma EncodeToString_chars: "set (EncodeToString bs) \<subseteq> set hextable"
proof (induction bs)
  case Nil
  then show ?case by simp
next
  case (Cons c cs)
  have l: "length hextable = 16" by (simp add: hextable_def)
  have "(of_char c :: nat) div 16 < 16" by (rule div16_less) simp
  then have a: "hextable ! ((of_char c :: nat) div 16) \<in> set hextable" using l by simp
  have "(of_char c :: nat) mod 16 < 16" by simp
  then have b: "hextable ! ((of_char c :: nat) mod 16) \<in> set hextable" using l by simp
  show ?case using a b Cons.IH by simp
qed

lemma EncodeToString_no_slash: "CHR ''/'' \<notin> set (EncodeToString bs)"
  using EncodeToString_chars [of bs] hextable_no_slash by blast

lemma Ext_scan_no_slash: "CHR ''/'' \<notin> set acc \<Longrightarrow> CHR ''/'' \<notin> set (Ext_scan xs acc)"
  by (induction xs arbitrary: acc) auto

lemma filepath_Ext_no_slash: "CHR ''/'' \<notin> set (filepath_Ext f)"
  by (simp add: filepath_Ext_def Ext_scan_no_slash)

lemma simple_newFileName: "simple_name (uuid_String u @ filepath_Ext f)"
proof -
  let ?s = "uuid_String u @ filepath_Ext f"
  have d: "CHR ''-'' \<in> set ?s"
    by (simp add: uuid_String_def)
  have sl: "CHR ''/'' \<notin> set ?s"
    by (simp add: uuid_String_def EncodeToString_no_slash filepath_Ext_no_slash)
  have n0: "?s \<noteq> []" using d by auto
  have n1: "?s \<noteq> ''.''"
  proof
    assume e: "?s = ''.''"
    have "CHR ''-'' \<in> set ''.''" using d unfolding e .
    then show False by simp
  qed
  have n2: "?s \<noteq> ''..''"
  proof
    assume e: "?s = ''..''"
    have "CHR ''-'' \<in> set ''..''" using d unfolding e .
    then show False by simp
  qed
  show ?thesis using sl n0 n1 n2 unfolding simple_name_def by blast
qed

lemma init_uploadDirPath: "init environ = Some cfg \<Longrightarrow> uploadDirPath cfg \<noteq> []"
  by (auto simp: init_def getEnv_def Let_def split: if_splits)

lemma os_MkdirAll_failed:
  "fst (os_MkdirAll w p) \<noteq> None \<Longrightarrow> entries (snd (os_MkdirAll w p)) = entries w"
  by (auto simp: os_MkdirAll_def log_def split: option.splits if_splits)

lemma os_Create_without_parent:
  assumes "d \<noteq> []" and "simple_name n" and "lookup w d = None"
  shows "fst (os_Create w (filepath_Join d n)) = Inl ErrNotExist"
proof -
  have r: "resolve (filepath_Join d n) = Some (rooted d, clean_elems d @ [n])"
    by (rule resolve_Join [OF assms(1,2)])
  have "map_of (entries w) (rooted d, clean_elems d) = None"
    using assms(1,3) by (simp add: lookup_def resolve_def)
  then show ?thesis
    using assms(2) by (simp add: os_Create_def r simple_name_def)
qed

lemma lookup_entries: "entries w' = entries w \<Longrightarrow> lookup w' p = lookup w p"
  by (cases "resolve p") (simp_all add: lookup_def)

section \<open>Facts about the validator, the router and the examples\<close>

lemma validateUrl_unfold:
  "validateUrl cfg now c \<longleftrightarrow>
     (\<exists>es sg e. GetQuery c ''expires'' = Some es \<and> es \<noteq> [] \<and>
               GetQuery c ''signature'' = Some sg \<and> sg \<noteq> [] \<and>
               ParseInt es = Inr e \<and> now \<le> e \<and>
               sg = EncodeToString (hmac_sha256 (secretKey cfg)
                      (Method c @ '':'' @ Param c ''filename'' @ '':'' @ FormatInt e)))"
  by (auto simp: validateUrl_def Let_def Query_def hmac_Equal_iff Sprintf_s_s_d_def
           split: option.splits sum.splits)

lemma validateUrl_signed:
  assumes "GetQuery c ''expires'' = Some es"
    and "ParseInt es = Inr e"
    and "GetQuery c ''signature'' =
           Some (generateSignedUrl_signature (secretKey cfg) (Method c) (Param c ''filename'') e)"
  shows "validateUrl cfg now c \<longleftrightarrow> now \<le> e"
proof -
  have ne: "es \<noteq> []" using ParseInt_range [OF assms(2)] by simp
  show ?thesis
    using assms ne
    by (simp add: validateUrl_def Let_def Query_def hmac_Equal_iff Sprintf_s_s_d_def
          signature_nonempty generateSignedUrl_signature_def)
qed

lemma serve_protected:
  assumes "match_route (reqMethod req) (reqPath req) = Some (r, ps)" and "r \<noteq> RootStatus"
  shows "serve cfg pf w req =
     (if \<not> validateUrl cfg (unix_now pf) (context_of req ps)
      then (JSON 403 [(''error'', JString ''Invalid or expired URL'')], w)
      else (case r of ImageGet \<Rightarrow> GET_image cfg pf | ImagesPost \<Rightarrow> POST_images cfg pf
            | ImagePut \<Rightarrow> PUT_image cfg pf | ImageDelete \<Rightarrow> DELETE_image cfg pf
            | RootStatus \<Rightarrow> GET_root) w (context_of req ps))"
  using assms by (cases r) (simp_all add: serve_def handler_of_def SignedURLMiddleware_def)

lemma signed_request_valid:
  assumes "match_route m p = Some (r, ps)"
  shows "validateUrl example_config 1000 (context_of (signed_request m p b) ps)"
proof -
  have "Param (context_of (signed_request m p b) ps) ''filename'' = drop 8 p"
    using assms by (auto simp: match_route_def Param_def context_of_def split: if_splits)
  then show ?thesis
    using validateUrl_signed [of "context_of (signed_request m p b) ps" "''1999999999''"
        1999999999 example_config 1000]
    by (simp add: ParseInt_1999999999 GetQuery_def context_of_def signed_request_def
          example_config_def)
qed

lemma Join_zz: "filepath_Join ''uploads'' ''zz.jpg'' = ''uploads/zz.jpg''"
  by (simp add: filepath_Join_def filepath_Clean_def clean_elems_def rooted_def clean_step_def)

lemma Join_a: "filepath_Join ''uploads'' ''a.jpg'' = ''uploads/a.jpg''"
  by (simp add: filepath_Join_def filepath_Clean_def clean_elems_def rooted_def clean_step_def)

lemma resolve_zz: "resolve ''uploads/zz.jpg'' = Some (False, [''uploads'', ''zz.jpg''])"
  by (simp add: resolve_def clean_elems_def rooted_def clean_step_def)

lemma resolve_a: "resolve ''uploads/a.jpg'' = Some (False, [''uploads'', ''a.jpg''])"
  by (simp add: resolve_def clean_elems_def rooted_def clean_step_def)

lemma match_put_zz: "match_route ''PUT'' ''/images/zz.jpg'' = Some (ImagePut, [(''filename'', ''zz.jpg'')])"
  by (simp add: match_route_def)

lemma match_delete_a: "match_route ''DELETE'' ''/images/a.jpg'' = Some (ImageDelete, [(''filename'', ''a.jpg'')])"
  by (simp add: match_route_def)

lemma match_delete_zz: "match_route ''DELETE'' ''/images/zz.jpg'' = Some (ImageDelete, [(''filename'', ''zz.jpg'')])"
  by (simp add: match_route_def)




lemma POST_images_unfold:
  "POST_images cfg pf w c =
     (case fst (Request_FormFile w c ''file'') of
        Inl err \<Rightarrow> (JSON 400 [(''message'', JString ''File not found in the request'')], log ReadBody w)
      | Inr u \<Rightarrow>
          let w3 = ensure_upload_dir cfg (log ReadBody w);
              name = uuid_String (uuid_New (random_bytes pf)) @ filepath_Ext (Filename u);
              dest = filepath_Join (uploadDirPath cfg) name
          in case fst (os_Create w3 dest) of
               Inl err \<Rightarrow> (JSON 500 [(''message'', JString ''Failed to create file.'')], snd (os_Create w3 dest))
             | Inr dst \<Rightarrow>
                 (case fst (io_Copy (snd (os_Create w3 dest)) dst (content u)) of
                    Some e \<Rightarrow> (JSON 500 [(''message'', JString ''Failed to save file.'')],
                               snd (io_Copy (snd (os_Create w3 dest)) dst (content u)))
                  | None \<Rightarrow>
                      (JSON 200
                         [(''message'', JString ''File uploaded''),
                          (''filename'', JString name),
                          (''original_filename'', JString (Filename u)),
                          (''size'', JNumber (Size u))],
                       snd (io_Copy (snd (os_Create w3 dest)) dst (content u)))))"
  by (simp add: POST_images_def Request_FormFile_def Let_def
        split: prod.splits sum.splits option.splits)

lemma POST_images_400:
  assumes "fst (Request_FormFile w c ''file'') = Inl e"
  shows "POST_images cfg pf w c =
           (JSON 400 [(''message'', JString ''File not found in the request'')], log ReadBody w)"
  by (simp add: POST_images_unfold assms)

lemma POST_images_result:
  assumes "fst (Request_FormFile w c ''file'') = Inr u"
  shows "fst (POST_images cfg pf w c) =
      (case fst (os_Create (ensure_upload_dir cfg (log ReadBody w))
                  (filepath_Join (uploadDirPath cfg)
                     (uuid_String (uuid_New (random_bytes pf)) @ filepath_Ext (Filename u)))) of
         Inl err \<Rightarrow> JSON 500 [(''message'', JString ''Failed to create file.'')]
       | Inr dst \<Rightarrow>
           (case fst (io_Copy (snd (os_Create (ensure_upload_dir cfg (log ReadBody w))
                  (filepath_Join (uploadDirPath cfg)
                     (uuid_String (uuid_New (random_bytes pf)) @ filepath_Ext (Filename u)))))
                   dst (content u)) of
              Some e \<Rightarrow> JSON 500 [(''message'', JString ''Failed to save file.'')]
            | None \<Rightarrow>
                JSON 200 [(''message'', JString ''File uploaded''),
                          (''filename'', JString (uuid_String (uuid_New (random_bytes pf)) @ filepath_Ext (Filename u))),
                          (''original_filename'', JString (Filename u)),
                          (''size'', JNumber (int (length (content u))))]))"
  by (simp add: POST_images_unfold assms Let_def Size_def split: sum.splits option.splits)

lemma ensure_upload_dir_failed:
  assumes "lookup w dir = None" and "dir = uploadDirPath cfg"
    and "fst (os_MkdirAll (snd (os_Stat w dir)) dir) \<noteq> None"
  shows "lookup (ensure_upload_dir cfg w) dir = None"
proof -
  have "entries (ensure_upload_dir cfg w) = entries w"
  proof (cases "refused w (Stat dir)")
    case True
    then show ?thesis
      using assms(2) by (simp add: ensure_upload_dir_def os_Stat_def os_IsNotExist_def log_def)
  next
    case False
    then have "ensure_upload_dir cfg w = snd (os_MkdirAll (snd (os_Stat w dir)) dir)"
      using assms(1,2) by (simp add: ensure_upload_dir_def os_Stat_def os_IsNotExist_def)
    moreover have "entries (snd (os_MkdirAll (snd (os_Stat w dir)) dir)) = entries w"
      using os_MkdirAll_failed [OF assms(3)] by (simp add: os_Stat_def log_def)
    ultimately show ?thesis by simp
  qed
  from lookup_entries [OF this, of dir] show ?thesis using assms(1) by simp
qed

lemma match_post: "match_route ''POST'' ''/images'' = Some (ImagesPost, [])"
  by (simp add: match_route_def)

lemma init_example: "init [''SECRET_KEY'' \<mapsto> ''s3cr3t''] = Some example_config"
  by (simp add: init_def getEnv_def os_Getenv_def example_config_def)

lemma example_uuid:
  "uuid_String (uuid_New (random_bytes example_platform)) = ''00010203-0405-4607-8809-0a0b0c0d0eff''"
  by (simp add: example_platform_def uuid_New_def uuid_String_def hextable_def)

lemma Ext_pic: "filepath_Ext ''pic.png'' = ''.png''"
  by (simp add: filepath_Ext_def)

lemma Join_new:
  "filepath_Join ''uploads'' ''00010203-0405-4607-8809-0a0b0c0d0eff.png''
     = ''uploads/00010203-0405-4607-8809-0a0b0c0d0eff.png''"
  by (simp add: filepath_Join_def filepath_Clean_def clean_elems_def rooted_def clean_step_def)

lemma resolve_new:
  "resolve ''uploads/00010203-0405-4607-8809-0a0b0c0d0eff.png''
     = Some (False, [''uploads'', ''00010203-0405-4607-8809-0a0b0c0d0eff.png''])"
  by (simp add: resolve_def clean_elems_def rooted_def clean_step_def)

lemma resolve_uploads: "resolve ''uploads'' = Some (False, [''uploads''])"
  by (simp add: resolve_def clean_elems_def rooted_def clean_step_def)


lemma example_now: "unix_now example_platform = 1000"
  by (simp add: example_platform_def)

lemma example_dir: "uploadDirPath example_config = ''uploads''"
  by (simp add: example_config_def)

lemma example_new_name:
  "uuid_String (uuid_New (random_bytes example_platform)) @ filepath_Ext ''pic.png''
     = ''00010203-0405-4607-8809-0a0b0c0d0eff.png''"
  by (simp add: example_uuid Ext_pic)

section \<open>Facts about \<open>c.File\<close>\<close>





















section \<open>Evaluating SHA-256 and HMAC\<close>

lemma blocks256_short: "length bs < 64 \<Longrightarrow> blocks256 s bs = s"
  by (subst blocks256.simps) simp

lemma blocks256_block:
  "length b = 64 \<Longrightarrow> blocks256 s (b @ rest) = blocks256 (block256 s b) rest"
  by (subst blocks256.simps) simp

lemma length_be64: "length (be64 v) = 8"
  by (simp add: be64_def be32_def)

lemma pad256_short:
  assumes "length b = 64" and "length m \<le> 55"
  shows "pad256 (b @ m) =
           b @ (m @ [char_of (128 :: nat)] @ replicate (55 - length m) (char_of (0 :: nat))
                  @ be64 (512 + 8 * int (length m)))"
proof -
  have a: "(- 9 - n) mod 64 = 55 - n" if "0 \<le> n" "n \<le> 55" for n :: int
    using that by presburger
  have "(55 - int (length (b @ m))) mod 64 = 55 - int (length m)"
    using assms a [of "int (length m)"] by simp
  then have "nat ((55 - int (length (b @ m))) mod 64) = 55 - length m"
    using assms by simp
  then show ?thesis using assms by (simp add: pad256_def algebra_simps)
qed

lemma sha256_two_blocks:
  assumes "length b = 64" and "length m \<le> 55"
  shows "sha256 (b @ m) =
           digest_bytes (block256 (block256 init256 b)
              (m @ [char_of (128 :: nat)] @ replicate (55 - length m) (char_of (0 :: nat))
                 @ be64 (512 + 8 * int (length m))))"
proof -
  let ?t = "m @ [char_of (128 :: nat)] @ replicate (55 - length m) (char_of (0 :: nat))
                 @ be64 (512 + 8 * int (length m))"
  have l: "length ?t = 64" using assms(2) by (simp add: length_be64)
  have "blocks256 init256 (b @ ?t) = blocks256 (block256 init256 b) ?t"
    by (rule blocks256_block [OF assms(1)])
  also have "\<dots> = blocks256 (block256 (block256 init256 b) ?t) []"
    using blocks256_block [OF l, of "block256 init256 b" "[]"] by simp
  also have "\<dots> = block256 (block256 init256 b) ?t"
    by (simp add: blocks256_short)
  finally show ?thesis
    by (simp add: sha256_def pad256_short [OF assms])
qed


lemma of_char_char_of_nat_int: "(of_char (char_of (n::nat)) :: int) = int (n mod 256)"
proof -
  have "(of_char (char_of n) :: int) = int (of_char (char_of n))"
    by (simp only: of_nat_of_char)
  then show ?thesis by simp
qed

lemma of_char_char_of_int_nat: "(of_char (char_of (v::int)) :: nat) = nat (v mod 256)"
proof -
  have "int (of_char (char_of v) :: nat) = (of_char (char_of v) :: int)"
    by (simp only: of_nat_of_char)
  then have "int (of_char (char_of v) :: nat) = v mod 256" by simp
  then show ?thesis by simp
qed

lemma replicate_numeral: "replicate (numeral k) x = x # replicate (pred_numeral k) x"
  by (simp add: numeral_eq_Suc)


lemma length_s3cr3t: "length ''s3cr3t'' = 6"
  by simp

lemma diff_64_6: "64 - 6 = (58 :: nat)"
  by simp

lemma le_6_64: "(6 :: nat) \<le> 64"
  by simp

lemma le_20_55: "(20 :: nat) \<le> 55"
  by simp

lemma hmac_sha256_short:
  assumes "length key \<le> 64" and "length msg \<le> 55"
  shows "hmac_sha256 key msg =
     digest_bytes
       (block256 (block256 init256 (map (xor_byte 92) (key @ replicate (64 - length key) (char_of (0 :: nat)))))
          (digest_bytes
             (block256 (block256 init256 (map (xor_byte 54) (key @ replicate (64 - length key) (char_of (0 :: nat)))))
                (msg @ [char_of (128 :: nat)] @ replicate (55 - length msg) (char_of (0 :: nat))
                   @ be64 (512 + 8 * int (length msg))))
           @ [char_of (128 :: nat)] @ replicate (55 - 32) (char_of (0 :: nat))
           @ be64 (512 + 8 * 32)))"
proof -
  let ?k = "key @ replicate (64 - length key) (char_of (0 :: nat))"
  have k: "length (map (xor_byte p) ?k) = 64" for p using assms(1) by simp
  have i: "sha256 (map (xor_byte 54) ?k @ msg) =
      digest_bytes (block256 (block256 init256 (map (xor_byte 54) ?k))
         (msg @ [char_of (128 :: nat)] @ replicate (55 - length msg) (char_of (0 :: nat))
            @ be64 (512 + 8 * int (length msg))))"
    by (rule sha256_two_blocks [OF k assms(2)])
  have l: "length (sha256 (map (xor_byte 54) ?k @ msg)) \<le> 55"
    by (simp add: length_sha256)
  have "hmac_sha256 key msg =
      sha256 (map (xor_byte 92) ?k @ sha256 (map (xor_byte 54) ?k @ msg))"
    using assms(1) by (simp add: hmac_sha256_def Let_def)
  also have "\<dots> = digest_bytes (block256 (block256 init256 (map (xor_byte 92) ?k))
         (sha256 (map (xor_byte 54) ?k @ msg) @ [char_of (128 :: nat)]
            @ replicate (55 - length (sha256 (map (xor_byte 54) ?k @ msg))) (char_of (0 :: nat))
            @ be64 (512 + 8 * int (length (sha256 (map (xor_byte 54) ?k @ msg))))))"
    by (rule sha256_two_blocks [OF k l])
  finally show ?thesis by (simp only: i length_sha256 length_digest_bytes of_nat_numeral)
qed

lemma schedule_numeral:
  "schedule (numeral k) ws = hd ws # schedule (pred_numeral k) (tl ws @ [next_w ws])"
  by (simp add: numeral_eq_Suc)

lemmas sha_eval = compress_def K256_def schedule_numeral next_w_def add32_def T1_def T2_def
  ssig0_def ssig1_def bsig0_def bsig1_def Ch_def Maj_def rotr_def shr_def

text \<open>The example key \<open>s3cr3t\<close>: its two padded blocks and the states after them.\<close>

lemma words_ipad:
  "be_words (map (xor_byte 54) (''s3cr3t'' @ replicate 58 (char_of (0 :: nat)))) =
     [1157977412, 88225334, 909522486, 909522486, 909522486, 909522486,
      909522486, 909522486, 909522486, 909522486, 909522486, 909522486,
      909522486, 909522486, 909522486, 909522486]"
  by (simp add: xor_byte_def of_char_char_of_nat_int replicate_numeral)

lemma words_opad:
  "be_words (map (xor_byte 92) (''s3cr3t'' @ replicate 58 (char_of (0 :: nat)))) =
     [795819822, 1864916060, 1549556828, 1549556828, 1549556828, 1549556828,
      1549556828, 1549556828, 1549556828, 1549556828, 1549556828, 1549556828,
      1549556828, 1549556828, 1549556828, 1549556828]"
  by (simp add: xor_byte_def of_char_char_of_nat_int replicate_numeral)

lemma compress_ipad:
  "compress (1779033703, 3144134277, 1013904242, 2773480762,
      1359893119, 2600822924, 528734635, 1541459225)
     [1157977412, 88225334, 909522486, 909522486, 909522486, 909522486,
      909522486, 909522486, 909522486, 909522486, 909522486, 909522486,
      909522486, 909522486, 909522486, 909522486]
   = (3111598974, 3976842588, 1019883392, 174413470, 3590892622, 3838042546,
      1437600749, 3879213132)"
  by (simp add: sha_eval)

lemma compress_opad:
  "compress (1779033703, 3144134277, 1013904242, 2773480762,
      1359893119, 2600822924, 528734635, 1541459225)
     [795819822, 1864916060, 1549556828, 1549556828, 1549556828, 1549556828,
      1549556828, 1549556828, 1549556828, 1549556828, 1549556828, 1549556828,
      1549556828, 1549556828, 1549556828, 1549556828]
   = (474802667, 141276547, 4268463918, 3672333871, 619219900, 2435688101,
      284456330, 3074579727)"
  by (simp add: sha_eval)

text \<open>The message \<open>GET:a.jpg:1999999999\<close>.\<close>

lemma length_get: "length ''GET:a.jpg:1999999999'' = 20"
  by simp

lemma words_get:
  "be_words (''GET:a.jpg:1999999999'' @ [char_of (128 :: nat)] @
       replicate (55 - length ''GET:a.jpg:1999999999'') (char_of (0 :: nat)) @
       be64 (512 + 8 * int (length ''GET:a.jpg:1999999999''))) =
     [1195725882, 1630431856, 1731866937, 960051513, 960051513, 2147483648, 0,
      0, 0, 0, 0, 0, 0, 0, 0, 672]"
  by (simp add: be64_def be32_def of_char_char_of_nat_int replicate_numeral)

lemma compress_inner_get:
  "compress (3111598974, 3976842588, 1019883392, 174413470, 3590892622, 3838042546,
      1437600749, 3879213132)
     [1195725882, 1630431856, 1731866937, 960051513, 960051513, 2147483648, 0,
      0, 0, 0, 0, 0, 0, 0, 0, 672]
   = (4043208757, 365908791, 141638161, 4230850352,
      3473029183, 1291257574, 3155248540, 3745863933)"
  by (simp add: sha_eval)

lemma words_outer_get:
  "be_words (digest_bytes (4043208757, 365908791, 141638161, 4230850352,
      3473029183, 1291257574, 3155248540, 3745863933) @ [char_of (128 :: nat)] @
       replicate (55 - 32) (char_of (0 :: nat)) @ be64 (512 + 8 * 32)) =
     [4043208757, 365908791, 141638161, 4230850352, 3473029183, 1291257574,
      3155248540, 3745863933, 2147483648, 0, 0, 0,
      0, 0, 0, 768]"
  by (simp add: be64_def be32_def of_char_char_of_nat_int replicate_numeral)

lemma compress_outer_get:
  "compress (474802667, 141276547, 4268463918, 3672333871, 619219900, 2435688101,
      284456330, 3074579727)
     [4043208757, 365908791, 141638161, 4230850352, 3473029183, 1291257574,
      3155248540, 3745863933, 2147483648, 0, 0, 0,
      0, 0, 0, 768]
   = (3062366841, 482049653, 239608411, 3005428726,
      3527522030, 4075392537, 4123494175, 2823207917)"
  by (simp add: sha_eval)

lemma hex_get:
  "EncodeToString (digest_bytes (3062366841, 482049653, 239608411, 3005428726,
      3527522030, 4075392537, 4123494175, 2823207917)) =
     ''b68802791cbb7e750e48225bb32333f6d241b6eef2e98e19f5c7871fa846bbed''"
  by (simp add: be32_def of_char_char_of_int_nat hextable_def)

lemma hmac_get:
  "EncodeToString (hmac_sha256 ''s3cr3t'' ''GET:a.jpg:1999999999'') =
     ''b68802791cbb7e750e48225bb32333f6d241b6eef2e98e19f5c7871fa846bbed''"
proof -
  have a: "length ''s3cr3t'' \<le> 64" by simp
  have b: "length ''GET:a.jpg:1999999999'' \<le> 55" by simp
  have "hmac_sha256 ''s3cr3t'' ''GET:a.jpg:1999999999'' = digest_bytes (3062366841, 482049653, 239608411, 3005428726,
      3527522030, 4075392537, 4123494175, 2823207917)"
    unfolding hmac_sha256_short [OF a b]
    by (simp only: block256_def init256_def length_s3cr3t diff_64_6 words_ipad words_opad
          compress_ipad compress_opad words_get compress_inner_get words_outer_get
          compress_outer_get)
  then show ?thesis by (simp only: hex_get)
qed

text \<open>The message \<open>PUT:a.jpg:1999999999\<close>.\<close>

lemma length_put: "length ''PUT:a.jpg:1999999999'' = 20"
  by simp







section \<open>The signing string and the hex encoding are injective\<close>







text \<open>
  The scenario of the specification: the signature of \<open>GET:a.jpg:1999999999\<close> under
  the key \<open>s3cr3t\<close> is accepted up to the time 1999999999 and rejected after it.
\<close>

lemma scenario_s3cr3t:
  "validateUrl example_config now
     \<lparr>Method = ''GET'', Params = [(''filename'', ''a.jpg'')],
      QueryPairs = [(''expires'', ''1999999999''),
                    (''signature'', ''b68802791cbb7e750e48225bb32333f6d241b6eef2e98e19f5c7871fa846bbed'')],
      Multipart = None, URLPath = ''/images/a.jpg'', RequestHeaders = []\<rparr>
   \<longleftrightarrow> now \<le> 1999999999"
  using validateUrl_signed [of
     "\<lparr>Method = ''GET'', Params = [(''filename'', ''a.jpg'')],
      QueryPairs = [(''expires'', ''1999999999''),
                    (''signature'', ''b68802791cbb7e750e48225bb32333f6d241b6eef2e98e19f5c7871fa846bbed'')],
      Multipart = None, URLPath = ''/images/a.jpg'', RequestHeaders = []\<rparr>" "''1999999999''" 1999999999 example_config now]
  by (simp add: GetQuery_def Param_def ParseInt_1999999999 FormatInt_1999999999
        generateSignedUrl_signature_def example_config_def hmac_get)

section \<open>Properties of the token validator\<close>

text \<open>
  Claim C1. The validator accepts a request if and only if both query parameters
  \<open>expires\<close> and \<open>signature\<close> are present and non-empty, \<open>expires\<close> parses as a
  base-10 64-bit integer \<open>e\<close>, the current Unix time does not exceed \<open>e\<close>, and the
  supplied signature equals, byte for byte, the lowercase hex encoding of the HMAC-SHA256
  under the secret key of \<open>method:filename:e\<close> with \<open>e\<close> in decimal. Every other
  request is rejected.
\<close>

theorem validateUrl_accepts_iff:
  "validateUrl cfg now c \<longleftrightarrow>
     (\<exists>es sg e. GetQuery c ''expires'' = Some es \<and> es \<noteq> [] \<and>
               GetQuery c ''signature'' = Some sg \<and> sg \<noteq> [] \<and>
               ParseInt es = Inr e \<and> now \<le> e \<and>
               sg = EncodeToString (hmac_sha256 (secretKey cfg)
                      (Method c @ '':'' @ Param c ''filename'' @ '':'' @ FormatInt e)))"
  by (rule validateUrl_unfold)

text \<open>
  Claim C2. For a correctly signed token the validator accepts when the current time
  equals \<open>expires\<close>, and it rejects exactly when the current time is strictly greater
  than \<open>expires\<close>.
\<close>

theorem expiry_is_strict:
  assumes "GetQuery c ''expires'' = Some es"
    and "ParseInt es = Inr e"
    and "GetQuery c ''signature'' =
           Some (EncodeToString (hmac_sha256 (secretKey cfg)
                   (Method c @ '':'' @ Param c ''filename'' @ '':'' @ FormatInt e)))"
  shows "validateUrl cfg e c \<and> (\<forall>now. \<not> validateUrl cfg now c \<longleftrightarrow> e < now)"
proof -
  have ne: "es \<noteq> []" using ParseInt_range [OF assms(2)] by simp
  have "validateUrl cfg now c \<longleftrightarrow> now \<le> e" for now
    using assms ne
    by (simp add: validateUrl_def Let_def Query_def hmac_Equal_iff Sprintf_s_s_d_def
          signature_nonempty)
  then show ?thesis by auto
qed

theorem expiry_is_strict_witness:
  "validateUrl example_config 1999999999
     \<lparr>Method = ''GET'', Params = [(''filename'', ''a.jpg'')],
      QueryPairs = [(''expires'', ''1999999999''),
                    (''signature'', EncodeToString (hmac_sha256 ''s3cr3t'' ''GET:a.jpg:1999999999''))],
      Multipart = None, URLPath = ''/images/a.jpg'', RequestHeaders = []\<rparr>
   \<and> \<not> validateUrl example_config 2000000000
     \<lparr>Method = ''GET'', Params = [(''filename'', ''a.jpg'')],
      QueryPairs = [(''expires'', ''1999999999''),
                    (''signature'', EncodeToString (hmac_sha256 ''s3cr3t'' ''GET:a.jpg:1999999999''))],
      Multipart = None, URLPath = ''/images/a.jpg'', RequestHeaders = []\<rparr>"
  using expiry_is_strict [of
     "\<lparr>Method = ''GET'', Params = [(''filename'', ''a.jpg'')],
      QueryPairs = [(''expires'', ''1999999999''),
                    (''signature'', EncodeToString (hmac_sha256 ''s3cr3t'' ''GET:a.jpg:1999999999''))],
      Multipart = None, URLPath = ''/images/a.jpg'', RequestHeaders = []\<rparr>" "''1999999999''" 1999999999 example_config]
  by (simp add: GetQuery_def Param_def ParseInt_1999999999 FormatInt_1999999999 example_config_def)



text \<open>
  Claim C10. The signature is recomputed over the decimal rendering of the parsed
  integer, not over the text supplied: a request whose \<open>expires\<close> parameter is any text
  that parses to \<open>e\<close> validates exactly as the same request carrying the canonical
  decimal form of \<open>e\<close>.
\<close>

theorem expires_text_is_normalised:
  assumes "ParseInt t = Inr e"
    and "GetQuery c ''expires'' = Some t"
    and "GetQuery c' ''expires'' = Some (FormatInt e)"
    and "GetQuery c' ''signature'' = GetQuery c ''signature''"
    and "Method c' = Method c"
    and "Param c' ''filename'' = Param c ''filename''"
  shows "validateUrl cfg now c = validateUrl cfg now c'"
proof -
  have r: "t \<noteq> []" "- (2 ^ 63) \<le> e" "e < 2 ^ 63"
    using ParseInt_range [OF assms(1)] by simp_all
  have p: "ParseInt (FormatInt e) = Inr e"
    by (rule ParseInt_FormatInt) (rule r)+
  have f: "FormatInt e \<noteq> []"
    using p by (auto simp: ParseInt_def)
  show ?thesis
    using assms r(1) p f by (simp add: validateUrl_def Let_def Query_def)
qed

theorem expires_text_is_normalised_witness:
  "validateUrl example_config 100
     \<lparr>Method = ''GET'', Params = [(''filename'', ''a.jpg'')],
      QueryPairs = [(''expires'', ''+123''),
                    (''signature'', EncodeToString (hmac_sha256 ''s3cr3t'' ''GET:a.jpg:123''))],
      Multipart = None, URLPath = ''/images/a.jpg'', RequestHeaders = []\<rparr>
   = validateUrl example_config 100
     \<lparr>Method = ''GET'', Params = [(''filename'', ''a.jpg'')],
      QueryPairs = [(''expires'', ''123''),
                    (''signature'', EncodeToString (hmac_sha256 ''s3cr3t'' ''GET:a.jpg:123''))],
      Multipart = None, URLPath = ''/images/a.jpg'', RequestHeaders = []\<rparr>"
  using expires_text_is_normalised [of "''+123''" 123
     "\<lparr>Method = ''GET'', Params = [(''filename'', ''a.jpg'')],
      QueryPairs = [(''expires'', ''+123''),
                    (''signature'', EncodeToString (hmac_sha256 ''s3cr3t'' ''GET:a.jpg:123''))],
      Multipart = None, URLPath = ''/images/a.jpg'', RequestHeaders = []\<rparr>"
     "\<lparr>Method = ''GET'', Params = [(''filename'', ''a.jpg'')],
      QueryPairs = [(''expires'', ''123''),
                    (''signature'', EncodeToString (hmac_sha256 ''s3cr3t'' ''GET:a.jpg:123''))],
      Multipart = None, URLPath = ''/images/a.jpg'', RequestHeaders = []\<rparr>" example_config 100]
  by (simp add: GetQuery_def Param_def ParseInt_plus_123 FormatInt_123 example_config_def)

section \<open>Properties of the handlers\<close>

text \<open>
  Claim C9. On each of the four protected routes a request that fails validation is
  answered with status 403 and one fixed message, whichever check failed; no handler
  runs, so the world (the file system and the trace of calls) is unchanged.
\<close>

theorem invalid_token_is_forbidden:
  assumes "match_route (reqMethod req) (reqPath req) = Some (r, ps)"
    and "r \<noteq> RootStatus"
    and "\<not> validateUrl cfg (unix_now pf) (context_of req ps)"
  shows "serve cfg pf w req = (JSON 403 [(''error'', JString ''Invalid or expired URL'')], w)"
  using assms by (simp add: serve_protected)

theorem invalid_token_is_forbidden_witness:
  "serve example_config example_platform example_world
     \<lparr>reqMethod = ''DELETE'', reqPath = ''/images/a.jpg'', reqQuery = [], reqBody = None,
      reqHeaders = []\<rparr>
   = (JSON 403 [(''error'', JString ''Invalid or expired URL'')], example_world)"
  using invalid_token_is_forbidden [of
      "\<lparr>reqMethod = ''DELETE'', reqPath = ''/images/a.jpg'', reqQuery = [], reqBody = None,
      reqHeaders = []\<rparr>"
      ImageDelete "[(''filename'', ''a.jpg'')]" example_config example_platform example_world]
  by (simp add: match_delete_a validateUrl_def Query_def GetQuery_def context_of_def)

text \<open>
  Absence alone does not decide the answer of the update handler. \<open>os.Stat\<close> can fail
  for another reason than absence; \<open>os.IsNotExist\<close> is then false and the handler goes on
  as if the file existed. In \<open>guarded_world\<close> nothing exists at \<open>uploads/zz.jpg\<close> and
  the system refuses to stat it: the handler reads the request body, tries to create the
  file and answers with status 500.
\<close>

theorem put_on_missing_file_reads_the_body:
  "match_route ''PUT'' ''/images/zz.jpg'' = Some (ImagePut, [(''filename'', ''zz.jpg'')])
   \<and> validateUrl example_config (unix_now example_platform)
        (context_of (signed_request ''PUT'' ''/images/zz.jpg''
                       (Some [(''file'', \<lparr>Filename = ''pic.png'', content = ''hello''\<rparr>)]))
           [(''filename'', ''zz.jpg'')])
   \<and> lookup guarded_world (filepath_Join (uploadDirPath example_config) ''zz.jpg'') = None
   \<and> fst (serve example_config example_platform guarded_world
             (signed_request ''PUT'' ''/images/zz.jpg''
                (Some [(''file'', \<lparr>Filename = ''pic.png'', content = ''hello''\<rparr>)])))
       = JSON 500 [(''message'', JString ''Failed to create file.'')]
   \<and> trace (snd (serve example_config example_platform guarded_world
             (signed_request ''PUT'' ''/images/zz.jpg''
                (Some [(''file'', \<lparr>Filename = ''pic.png'', content = ''hello''\<rparr>)]))))
       = [Stat ''uploads/zz.jpg'', ReadBody, Create ''uploads/zz.jpg'']"
proof -
  let ?r = "signed_request ''PUT'' ''/images/zz.jpg''
              (Some [(''file'', \<lparr>Filename = ''pic.png'', content = ''hello''\<rparr>)])"
  have v: "validateUrl example_config (unix_now example_platform)
             (context_of ?r [(''filename'', ''zz.jpg'')])"
    using signed_request_valid [OF match_put_zz] by (simp add: example_now)
  have m: "match_route (reqMethod ?r) (reqPath ?r) = Some (ImagePut, [(''filename'', ''zz.jpg'')])"
    by (simp add: signed_request_def match_put_zz)
  have l: "lookup guarded_world (filepath_Join (uploadDirPath example_config) ''zz.jpg'') = None"
    by (simp add: example_dir Join_zz lookup_def resolve_zz guarded_world_def example_world_def)
  have p: "PUT_image example_config example_platform guarded_world
             (context_of ?r [(''filename'', ''zz.jpg'')])
           = (JSON 500 [(''message'', JString ''Failed to create file.'')],
              log (Create ''uploads/zz.jpg'') (log ReadBody (log (Stat ''uploads/zz.jpg'') guarded_world)))"
    by (simp add: PUT_image_def Let_def example_dir Param_def context_of_def signed_request_def
          Join_zz os_Stat_def os_IsNotExist_def Request_FormFile_def os_Create_def resolve_zz
          log_def guarded_world_def example_world_def)
  have s: "serve example_config example_platform guarded_world ?r
           = PUT_image example_config example_platform guarded_world
               (context_of ?r [(''filename'', ''zz.jpg'')])"
    using serve_protected [OF m, of example_config example_platform guarded_world] v by simp
  have t: "trace (log (Create ''uploads/zz.jpg'')
                    (log ReadBody (log (Stat ''uploads/zz.jpg'') guarded_world)))
           = [Stat ''uploads/zz.jpg'', ReadBody, Create ''uploads/zz.jpg'']"
    by (simp add: log_def guarded_world_def example_world_def)
  show ?thesis
    using v l by (simp add: match_put_zz s p t)
qed

text \<open>
  Claim C5, as amended. A validated \<open>PUT /images/:filename\<close> for which \<open>os.Stat\<close>
  reports that nothing exists at the resolved path is answered with status 404; the only
  call made is the \<open>Stat\<close>: the file system is unchanged and the request body is not
  read.
\<close>

theorem put_requires_stat_not_exist:
  assumes "match_route (reqMethod req) (reqPath req) = Some (ImagePut, ps)"
    and "validateUrl cfg (unix_now pf) (context_of req ps)"
    and "path = filepath_Join (uploadDirPath cfg) (Param (context_of req ps) ''filename'')"
    and "os_IsNotExist (fst (os_Stat w path))"
  shows "serve cfg pf w req = (JSON 404 [(''message'', JString ''File Not found.'')], log (Stat path) w)
       \<and> entries (snd (serve cfg pf w req)) = entries w
       \<and> trace (snd (serve cfg pf w req)) = trace w @ [Stat path]"
proof -
  have "PUT_image cfg pf w (context_of req ps) =
          (JSON 404 [(''message'', JString ''File Not found.'')], log (Stat path) w)"
    using assms(3,4) by (simp add: PUT_image_def Let_def os_Stat_def split: prod.splits)
  then show ?thesis using assms(1,2) by (simp add: serve_protected log_def)
qed

theorem put_requires_stat_not_exist_witness:
  "serve example_config example_platform example_world
     (signed_request ''PUT'' ''/images/zz.jpg''
        (Some [(''file'', \<lparr>Filename = ''pic.png'', content = ''hello''\<rparr>)]))
   = (JSON 404 [(''message'', JString ''File Not found.'')],
      log (Stat ''uploads/zz.jpg'') example_world)"
  using put_requires_stat_not_exist [of
     "signed_request ''PUT'' ''/images/zz.jpg''
        (Some [(''file'', \<lparr>Filename = ''pic.png'', content = ''hello''\<rparr>)])"
     "[(''filename'', ''zz.jpg'')]" example_config example_platform "''uploads/zz.jpg''"
     example_world]
    signed_request_valid [OF match_put_zz]
  by (simp add: match_put_zz signed_request_def Param_def context_of_def Join_zz lookup_def
        os_Stat_def os_IsNotExist_def
        resolve_zz example_world_def example_config_def example_platform_def)

text \<open>
  Claim C7. A validated \<open>DELETE /images/:filename\<close> is answered with status 200 and
  the message \<open>File removed\<close> exactly when the removal succeeds, and with status 500
  whenever it fails; removing a path at which nothing exists fails.
\<close>

theorem delete_reports_removal:
  assumes "match_route (reqMethod req) (reqPath req) = Some (ImageDelete, ps)"
    and "validateUrl cfg (unix_now pf) (context_of req ps)"
    and "path = filepath_Join (uploadDirPath cfg) (Param (context_of req ps) ''filename'')"
  shows "fst (serve cfg pf w req) =
           (if fst (os_Remove w path) = None
            then JSON 200 [(''message'', JString ''File removed'')]
            else JSON 500 [(''message'', JString ''Failed to remove file.'')])
       \<and> (lookup w path = None \<longrightarrow> fst (os_Remove w path) = Some ErrNotExist)"
  using assms
  by (auto simp: serve_protected DELETE_image_def Let_def os_Remove_def lookup_def
           split: prod.splits option.splits)

theorem delete_reports_removal_witness:
  "fst (serve example_config example_platform example_world
          (signed_request ''DELETE'' ''/images/a.jpg'' None))
     = JSON 200 [(''message'', JString ''File removed'')]
   \<and> fst (serve example_config example_platform example_world
          (signed_request ''DELETE'' ''/images/zz.jpg'' None))
     = JSON 500 [(''message'', JString ''Failed to remove file.'')]"
  using delete_reports_removal [of "signed_request ''DELETE'' ''/images/a.jpg'' None"
      "[(''filename'', ''a.jpg'')]" example_config example_platform "''uploads/a.jpg''"
      example_world]
    delete_reports_removal [of "signed_request ''DELETE'' ''/images/zz.jpg'' None"
      "[(''filename'', ''zz.jpg'')]" example_config example_platform "''uploads/zz.jpg''"
      example_world]
    signed_request_valid [OF match_delete_a] signed_request_valid [OF match_delete_zz]
  by (simp add: match_delete_a match_delete_zz signed_request_def Param_def context_of_def
        Join_a Join_zz os_Remove_def resolve_a resolve_zz example_world_def example_config_def
        example_platform_def)




text \<open>
  Claim C6. A validated \<open>POST /images\<close> is answered with status 400 when the request
  has no \<open>file\<close> part; with status 500 when creating the storage directory fails, when
  creating the file fails, and when copying the bytes fails; and otherwise with status 200
  and the generated filename (the identifier followed by the extension of the original
  filename), the original filename and the size in bytes.
\<close>

theorem post_images_statuses:
  assumes "init environ = Some cfg"
    and "match_route (reqMethod req) (reqPath req) = Some (ImagesPost, ps)"
    and "validateUrl cfg (unix_now pf) (context_of req ps)"
  shows "(\<forall>e. fst (Request_FormFile w (context_of req ps) ''file'') = Inl e \<longrightarrow>
            fst (serve cfg pf w req) =
              JSON 400 [(''message'', JString ''File not found in the request'')])
     \<and> (\<forall>u name dest ready.
           fst (Request_FormFile w (context_of req ps) ''file'') = Inr u \<and>
           name = uuid_String (uuid_New (random_bytes pf)) @ filepath_Ext (Filename u) \<and>
           dest = filepath_Join (uploadDirPath cfg) name \<and>
           ready = ensure_upload_dir cfg (log ReadBody w) \<longrightarrow>
           (lookup w (uploadDirPath cfg) = None \<and>
            fst (os_MkdirAll (snd (os_Stat (log ReadBody w) (uploadDirPath cfg)))
                   (uploadDirPath cfg)) \<noteq> None \<longrightarrow>
              fst (serve cfg pf w req) = JSON 500 [(''message'', JString ''Failed to create file.'')])
         \<and> (\<forall>e. fst (os_Create ready dest) = Inl e \<longrightarrow>
              fst (serve cfg pf w req) = JSON 500 [(''message'', JString ''Failed to create file.'')])
         \<and> (\<forall>dst e. fst (os_Create ready dest) = Inr dst \<and>
                    fst (io_Copy (snd (os_Create ready dest)) dst (content u)) = Some e \<longrightarrow>
              fst (serve cfg pf w req) = JSON 500 [(''message'', JString ''Failed to save file.'')])
         \<and> (\<forall>dst. fst (os_Create ready dest) = Inr dst \<and>
                  fst (io_Copy (snd (os_Create ready dest)) dst (content u)) = None \<longrightarrow>
              fst (serve cfg pf w req) =
                JSON 200 [(''message'', JString ''File uploaded''),
                          (''filename'', JString name),
                          (''original_filename'', JString (Filename u)),
                          (''size'', JNumber (int (length (content u))))]))"
proof -
  let ?c = "context_of req ps"
  let ?dir = "uploadDirPath cfg"
  let ?ready = "ensure_upload_dir cfg (log ReadBody w)"
  have s: "serve cfg pf w req = POST_images cfg pf w ?c"
    using assms(2,3) by (simp add: serve_protected)
  have d: "?dir \<noteq> []" by (rule init_uploadDirPath [OF assms(1)])
  have one: "fst (serve cfg pf w req) =
               JSON 400 [(''message'', JString ''File not found in the request'')]"
    if "fst (Request_FormFile w ?c ''file'') = Inl e" for e
    by (simp add: s POST_images_400 [OF that])
  have two: "fst (serve cfg pf w req) =
      (case fst (os_Create ?ready (filepath_Join ?dir
                   (uuid_String (uuid_New (random_bytes pf)) @ filepath_Ext (Filename u)))) of
         Inl err \<Rightarrow> JSON 500 [(''message'', JString ''Failed to create file.'')]
       | Inr dst \<Rightarrow>
           (case fst (io_Copy (snd (os_Create ?ready (filepath_Join ?dir
                   (uuid_String (uuid_New (random_bytes pf)) @ filepath_Ext (Filename u)))))
                   dst (content u)) of
              Some e \<Rightarrow> JSON 500 [(''message'', JString ''Failed to save file.'')]
            | None \<Rightarrow>
                JSON 200 [(''message'', JString ''File uploaded''),
                          (''filename'', JString (uuid_String (uuid_New (random_bytes pf)) @ filepath_Ext (Filename u))),
                          (''original_filename'', JString (Filename u)),
                          (''size'', JNumber (int (length (content u))))]))"
    if "fst (Request_FormFile w ?c ''file'') = Inr u" for u
    unfolding s by (rule POST_images_result [OF that])
  have mk: "fst (os_Create ?ready (filepath_Join ?dir (uuid_String v @ filepath_Ext f)))
              = Inl ErrNotExist"
    if "lookup w ?dir = None"
      and "fst (os_MkdirAll (snd (os_Stat (log ReadBody w) ?dir)) ?dir) \<noteq> None" for v f
  proof -
    have l: "lookup (log ReadBody w) ?dir = None"
      using lookup_entries [of "log ReadBody w" w ?dir] that(1) by (simp add: log_def)
    have "lookup ?ready ?dir = None"
      by (rule ensure_upload_dir_failed [OF l refl that(2)])
    then show ?thesis by (rule os_Create_without_parent [OF d simple_newFileName])
  qed
  show ?thesis
  proof (intro conjI allI impI; (elim conjE)?)
    fix e
    assume "fst (Request_FormFile w ?c ''file'') = Inl e"
    then show "fst (serve cfg pf w req) =
        JSON 400 [(''message'', JString ''File not found in the request'')]"
      by (rule one)
  next
    fix u name dest ready
    assume "fst (Request_FormFile w ?c ''file'') = Inr u"
      and "lookup w ?dir = None"
      and "fst (os_MkdirAll (snd (os_Stat (log ReadBody w) ?dir)) ?dir) \<noteq> None"
    then show "fst (serve cfg pf w req) = JSON 500 [(''message'', JString ''Failed to create file.'')]"
      by (simp add: two mk)
  next
    fix u name dest ready e
    assume "fst (Request_FormFile w ?c ''file'') = Inr u"
      and "name = uuid_String (uuid_New (random_bytes pf)) @ filepath_Ext (Filename u)"
      and "dest = filepath_Join ?dir name" and "ready = ?ready"
      and "fst (os_Create ready dest) = Inl e"
    then show "fst (serve cfg pf w req) = JSON 500 [(''message'', JString ''Failed to create file.'')]"
      by (simp add: two)
  next
    fix u name dest ready dst e
    assume "fst (Request_FormFile w ?c ''file'') = Inr u"
      and "name = uuid_String (uuid_New (random_bytes pf)) @ filepath_Ext (Filename u)"
      and "dest = filepath_Join ?dir name" and "ready = ?ready"
      and "fst (os_Create ready dest) = Inr dst"
      and "fst (io_Copy (snd (os_Create ready dest)) dst (content u)) = Some e"
    then show "fst (serve cfg pf w req) = JSON 500 [(''message'', JString ''Failed to save file.'')]"
      by (simp add: two)
  next
    fix u name dest ready dst
    assume "fst (Request_FormFile w ?c ''file'') = Inr u"
      and "name = uuid_String (uuid_New (random_bytes pf)) @ filepath_Ext (Filename u)"
      and "dest = filepath_Join ?dir name" and "ready = ?ready"
      and "fst (os_Create ready dest) = Inr dst"
      and "fst (io_Copy (snd (os_Create ready dest)) dst (content u)) = None"
    then show "fst (serve cfg pf w req) =
                JSON 200 [(''message'', JString ''File uploaded''),
                          (''filename'', JString name),
                          (''original_filename'', JString (Filename u)),
                          (''size'', JNumber (int (length (content u))))]"
      by (simp add: two)
  qed
qed

theorem post_images_statuses_witness:
  "fst (serve example_config example_platform example_world
          (signed_request ''POST'' ''/images'' None))
     = JSON 400 [(''message'', JString ''File not found in the request'')]
   \<and> fst (serve example_config example_platform example_world
          (signed_request ''POST'' ''/images''
             (Some [(''file'', \<lparr>Filename = ''pic.png'', content = ''hello''\<rparr>)])))
     = JSON 200 [(''message'', JString ''File uploaded''),
                 (''filename'', JString ''00010203-0405-4607-8809-0a0b0c0d0eff.png''),
                 (''original_filename'', JString ''pic.png''),
                 (''size'', JNumber 5)]
   \<and> fst (serve example_config example_platform
          (example_world\<lparr>entries := [((False, []), Directory)],
                         refused := (\<lambda>c. c = MkdirAll ''uploads'')\<rparr>)
          (signed_request ''POST'' ''/images''
             (Some [(''file'', \<lparr>Filename = ''pic.png'', content = ''hello''\<rparr>)])))
     = JSON 500 [(''message'', JString ''Failed to create file.'')]"
proof -
  let ?u = "\<lparr>Filename = ''pic.png'', content = ''hello''\<rparr>"
  let ?r0 = "signed_request ''POST'' ''/images'' None"
  let ?r1 = "signed_request ''POST'' ''/images'' (Some [(''file'', ?u)])"
  let ?w1 = "example_world\<lparr>entries := [((False, []), Directory)],
                            refused := (\<lambda>c. c = MkdirAll ''uploads'')\<rparr>"
  let ?dest = "''uploads/00010203-0405-4607-8809-0a0b0c0d0eff.png''"
  let ?loc = "(False, [''uploads'', ''00010203-0405-4607-8809-0a0b0c0d0eff.png''])"
  have m: "match_route (reqMethod (signed_request ''POST'' ''/images'' b))
             (reqPath (signed_request ''POST'' ''/images'' b)) = Some (ImagesPost, [])" for b
    by (simp add: signed_request_def match_post)
  have v: "validateUrl example_config (unix_now example_platform)
             (context_of (signed_request ''POST'' ''/images'' b) [])" for b
    using signed_request_valid [OF match_post] by (simp add: example_now)
  have f0: "fst (Request_FormFile example_world (context_of ?r0 []) ''file'') = Inl ErrNotMultipart"
    by (simp add: Request_FormFile_def context_of_def signed_request_def)
  have f1: "fst (Request_FormFile w (context_of ?r1 []) ''file'') = Inr ?u" for w
    by (simp add: Request_FormFile_def context_of_def signed_request_def)
  have c: "fst (os_Create (ensure_upload_dir example_config (log ReadBody example_world)) ?dest)
             = Inr ?loc"
    by (simp add: ensure_upload_dir_def os_Stat_def os_IsNotExist_def os_Create_def lookup_def
          log_def resolve_new resolve_uploads example_world_def example_config_def)
  have k: "fst (io_Copy (snd (os_Create (ensure_upload_dir example_config
                 (log ReadBody example_world)) ?dest)) ?loc ''hello'') = None"
    by (simp add: ensure_upload_dir_def os_Stat_def os_IsNotExist_def os_Create_def io_Copy_def
          lookup_def log_def resolve_new resolve_uploads example_world_def example_config_def)
  have one: "fst (serve example_config example_platform example_world ?r0)
               = JSON 400 [(''message'', JString ''File not found in the request'')]"
    using post_images_statuses [OF init_example m [of None] v [of None], where w = example_world] f0 by blast
  have two: "fst (serve example_config example_platform example_world ?r1)
     = JSON 200 [(''message'', JString ''File uploaded''),
                 (''filename'', JString ''00010203-0405-4607-8809-0a0b0c0d0eff.png''),
                 (''original_filename'', JString ''pic.png''),
                 (''size'', JNumber 5)]"
    using post_images_statuses [OF init_example m [of "Some [(''file'', ?u)]"]
        v [of "Some [(''file'', ?u)]"], where w = example_world,
        THEN conjunct2, THEN spec, THEN spec, THEN spec, THEN spec, THEN mp,
        OF conjI [OF f1 conjI [OF refl conjI [OF refl refl]]]]
      c k
    by (simp add: example_new_name example_dir Join_new)
  have l: "lookup ?w1 (uploadDirPath example_config) = None"
    by (simp add: lookup_def resolve_uploads example_dir example_world_def)
  have mk: "fst (os_MkdirAll (snd (os_Stat (log ReadBody ?w1) (uploadDirPath example_config)))
                  (uploadDirPath example_config)) \<noteq> None"
    by (simp add: os_MkdirAll_def os_Stat_def log_def resolve_uploads example_dir
          example_world_def)
  have three: "fst (serve example_config example_platform ?w1 ?r1)
     = JSON 500 [(''message'', JString ''Failed to create file.'')]"
    using post_images_statuses [OF init_example m [of "Some [(''file'', ?u)]"]
        v [of "Some [(''file'', ?u)]"], where w = ?w1,
        THEN conjunct2, THEN spec, THEN spec, THEN spec, THEN spec, THEN mp,
        OF conjI [OF f1 conjI [OF refl conjI [OF refl refl]]], THEN conjunct1]
      l mk
    by blast
  show ?thesis using one two three by blast
qed

end
